theory Spec2Isabelle
  imports Main "HOL-Library.Word"
begin

section \<open>Common vocabulary\<close>

type_synonym byte = "8 word"
type_synonym digest = string

text \<open>Points in time are counted in whole seconds.\<close>

type_synonym time = int

subsection \<open>Registry errors (internal/keppel/errors.go)\<close>

datatype RegistryV2ErrorCode =
    ErrBlobUnknown
  | ErrBlobUploadInvalid
  | ErrBlobUploadUnknown
  | ErrDigestInvalid
  | ErrManifestBlobUnknown
  | ErrManifestInvalid
  | ErrManifestUnknown
  | ErrManifestUnverified
  | ErrNameInvalid
  | ErrNameUnknown
  | ErrSizeInvalid
  | ErrTagInvalid
  | ErrUnauthorized
  | ErrDenied
  | ErrUnsupported

fun apiErrorMessages :: "RegistryV2ErrorCode \<Rightarrow> string" where
  "apiErrorMessages ErrBlobUnknown = ''blob unknown to registry''"
| "apiErrorMessages ErrBlobUploadInvalid = ''blob upload invalid''"
| "apiErrorMessages ErrBlobUploadUnknown = ''blob upload unknown to registry''"
| "apiErrorMessages ErrDigestInvalid = ''provided digest did not match uploaded content''"
| "apiErrorMessages ErrManifestBlobUnknown = ''manifest blob unknown to registry''"
| "apiErrorMessages ErrManifestInvalid = ''manifest invalid''"
| "apiErrorMessages ErrManifestUnknown = ''manifest unknown''"
| "apiErrorMessages ErrManifestUnverified = ''manifest failed signature verification''"
| "apiErrorMessages ErrNameInvalid = ''invalid repository name''"
| "apiErrorMessages ErrNameUnknown = ''repository name not known to registry''"
| "apiErrorMessages ErrSizeInvalid = ''provided length did not match content length''"
| "apiErrorMessages ErrTagInvalid = ''manifest tag did not match URI''"
| "apiErrorMessages ErrUnauthorized = ''authentication required''"
| "apiErrorMessages ErrDenied = ''requested access to the resource is denied''"
| "apiErrorMessages ErrUnsupported = ''operation is unsupported''"

record RegistryV2Error =
  Code :: RegistryV2ErrorCode
  Message :: string
  Detail :: "string option"

text \<open>
  \<^verbatim>\<open>RegistryV2ErrorCode.With(msg)\<close> as it is called without format arguments: an empty
  message leaves the detail pointer nil.
\<close>

definition With :: "RegistryV2ErrorCode \<Rightarrow> string \<Rightarrow> RegistryV2Error" where
  "With c msg =
     \<lparr>Code = c, Message = apiErrorMessages c,
      Detail = (if msg \<noteq> [] then Some msg else None)\<rparr>"

text \<open>
  Modelled from the spec: \<^verbatim>\<open>RegistryV2Error.WithDetail\<close> is called by the manifest
  ingest but is not part of the error module at hand; the spec has the error carry
  ``the offending digest as detail''.
\<close>

definition WithDetail :: "RegistryV2Error \<Rightarrow> string \<Rightarrow> RegistryV2Error" where
  "WithDetail e d = e\<lparr>Detail := Some d\<rparr>"

text \<open>
  A Go \<^verbatim>\<open>error\<close> value: a registry error, the sentinel \<^verbatim>\<open>sql.ErrNoRows\<close>, or any
  other error, known by its message.
\<close>

datatype error =
    RegistryError RegistryV2Error
  | SqlErrNoRows
  | GenericError string

fun RegistryV2Error_Error :: "RegistryV2Error \<Rightarrow> string" where
  "RegistryV2Error_Error e =
     (case Detail e of None \<Rightarrow> Message e | Some d \<Rightarrow> Message e @ '': '' @ d)"

fun error_Error :: "error \<Rightarrow> string" where
  "error_Error (RegistryError e) = RegistryV2Error_Error e"
| "error_Error SqlErrNoRows = ''sql: no rows in result set''"
| "error_Error (GenericError s) = s"

text \<open>A Go panic is an outcome of its own, apart from the returned values.\<close>

datatype 'a outcome = Panic string | Ret 'a

subsection \<open>Manifest references and descriptors\<close>

text \<open>
  Modelled from the spec: \<^verbatim>\<open>keppel.ManifestReference\<close> is declared outside the files
  at hand. The code builds it as a struct with a \<^verbatim>\<open>Digest\<close> and a \<^verbatim>\<open>Tag\<close> field; the
  spec calls it ``tag or digest''. It is a digest reference when the digest is set.
\<close>

record ManifestReference =
  ref_Digest :: digest
  ref_Tag :: string

definition IsDigest :: "ManifestReference \<Rightarrow> bool" where
  "IsDigest r = (ref_Digest r \<noteq> [])"

definition IsTag :: "ManifestReference \<Rightarrow> bool" where
  "IsTag r = (ref_Digest r = [])"

definition ManifestReference_String :: "ManifestReference \<Rightarrow> string" where
  "ManifestReference_String r = (if IsDigest r then ref_Digest r else ref_Tag r)"

text \<open>\<^verbatim>\<open>distribution.Descriptor\<close>: the declared size is a signed 64-bit integer.\<close>

record Descriptor =
  d_MediaType :: string
  d_Size :: "64 word"
  d_Digest :: digest

section \<open>Validation sessions (internal/client/validate.go)\<close>

text \<open>
  The calls made on the session's logger are kept as a trace. \<^verbatim>\<open>noopLogger\<close> discards
  them; any other logger is supplied by the caller.
\<close>

datatype log_call =
    LogManifest ManifestReference nat "error option" bool
  | LogBlob digest nat "error option" bool

datatype ValidationLogger = noopLogger | callerLogger

text \<open>
  Both fields of a session may be nil: the logger interface and the map. A nil
  \<^verbatim>\<open>*ValidationSession\<close> is \<open>None\<close>.
\<close>

record ValidationSession =
  Logger :: "ValidationLogger option"
  isValid :: "(string \<rightharpoonup> bool) option"

definition applyDefaults :: "ValidationSession option \<Rightarrow> ValidationSession" where
  "applyDefaults sp =
     (let s = (case sp of None \<Rightarrow> \<lparr>Logger = None, isValid = None\<rparr> | Some s0 \<Rightarrow> s0);
          s = (if Logger s = None then s\<lparr>Logger := Some noopLogger\<rparr> else s);
          s = (if isValid s = None then s\<lparr>isValid := Some Map.empty\<rparr> else s)
      in s)"

record RepoClient =
  Host :: string
  RepoName :: string

definition validationCacheKey :: "RepoClient \<Rightarrow> string \<Rightarrow> string" where
  "validationCacheKey c digestOrTagName =
     Host c @ ''/'' @ RepoName c @ ''/'' @ digestOrTagName"

text \<open>
  The state a validation run threads through its calls: the session and the trace of
  logger calls.
\<close>

record vstate =
  session :: ValidationSession
  logged :: "log_call list"

text \<open>Reading a Go map, nil or not, gives the zero value for a missing key.\<close>

definition cache_lookup :: "ValidationSession \<Rightarrow> string \<Rightarrow> bool" where
  "cache_lookup s k =
     (case isValid s of None \<Rightarrow> False
      | Some m \<Rightarrow> (case m k of None \<Rightarrow> False | Some b \<Rightarrow> b))"

text \<open>Writing to a nil map panics.\<close>

definition cache_store :: "vstate \<Rightarrow> string \<Rightarrow> vstate outcome" where
  "cache_store st k =
     (case isValid (session st) of
        None \<Rightarrow> Panic ''assignment to entry in nil map''
      | Some m \<Rightarrow> Ret (st\<lparr>session := (session st)\<lparr>isValid := Some (m(k \<mapsto> True))\<rparr>\<rparr>))"

text \<open>Calling a method on a nil interface value panics.\<close>

definition log_call :: "vstate \<Rightarrow> log_call \<Rightarrow> vstate outcome" where
  "log_call st ev =
     (case Logger (session st) of
        None \<Rightarrow> Panic ''nil pointer dereference''
      | Some _ \<Rightarrow> Ret (st\<lparr>logged := logged st @ [ev]\<rparr>))"

text \<open>
  The registry a client talks to and the parser are outside the client: what a
  download returns, what closing the body returns, the digest that hashing the body
  gives, and the references of a parsed manifest. The platform filter is opaque.
\<close>

type_synonym PlatformFilter = nat

record ClientManifest =
  BlobReferences :: "Descriptor list"
  ManifestReferences :: "PlatformFilter \<Rightarrow> Descriptor list"

record client_env =
  DownloadManifest :: "RepoClient \<Rightarrow> ManifestReference \<Rightarrow> error + (byte list \<times> string)"
  ParseManifest :: "string \<Rightarrow> byte list \<Rightarrow> error + (ClientManifest \<times> Descriptor)"
  DownloadBlob :: "RepoClient \<Rightarrow> digest \<Rightarrow> error + byte list"
  copyError :: "RepoClient \<Rightarrow> digest \<Rightarrow> error option"
  closeError :: "RepoClient \<Rightarrow> digest \<Rightarrow> error option"
  hashDigest :: "digest \<Rightarrow> byte list \<Rightarrow> digest"

text \<open>
  \<^verbatim>\<open>doValidateBlobContents\<close>. The two deferred functions run in reverse order: first
  the body is closed (its error becomes the result when there was none), then the
  result is logged.
\<close>

definition blob_finish ::
  "client_env \<Rightarrow> RepoClient \<Rightarrow> digest \<Rightarrow> nat \<Rightarrow> error option \<Rightarrow> vstate
     \<Rightarrow> (error option \<times> vstate) outcome" where
  "blob_finish env c blobDigest level returnErr st =
     (let returnErr' = (if returnErr = None then closeError env c blobDigest else returnErr)
      in case log_call st (LogBlob blobDigest level returnErr' False) of
           Panic p \<Rightarrow> Panic p
         | Ret st' \<Rightarrow> Ret (returnErr', st'))"

definition doValidateBlobContents ::
  "client_env \<Rightarrow> RepoClient \<Rightarrow> digest \<Rightarrow> nat \<Rightarrow> vstate \<Rightarrow> (error option \<times> vstate) outcome" where
  "doValidateBlobContents env c blobDigest level st =
     (let cacheKey = validationCacheKey c blobDigest in
      if cache_lookup (session st) cacheKey then
        (case log_call st (LogBlob blobDigest level None True) of
           Panic p \<Rightarrow> Panic p
         | Ret st' \<Rightarrow> Ret (None, st'))
      else
        (case DownloadBlob env c blobDigest of
           Inl err \<Rightarrow>
             (case log_call st (LogBlob blobDigest level (Some err) False) of
                Panic p \<Rightarrow> Panic p
              | Ret st' \<Rightarrow> Ret (Some err, st'))
         | Inr body \<Rightarrow>
             (case copyError env c blobDigest of
                Some err \<Rightarrow> blob_finish env c blobDigest level (Some err) st
              | None \<Rightarrow>
                  (let actualDigest = hashDigest env blobDigest body in
                   if actualDigest \<noteq> blobDigest then
                     blob_finish env c blobDigest level
                       (Some (GenericError (''actual digest is '' @ actualDigest))) st
                   else
                     (case cache_store st cacheKey of
                        Panic p \<Rightarrow> Panic p
                      | Ret st' \<Rightarrow> blob_finish env c blobDigest level None st')))))"

text \<open>The loop over the blob references of a manifest stops at the first error.\<close>

fun validateBlobRefs ::
  "client_env \<Rightarrow> RepoClient \<Rightarrow> Descriptor list \<Rightarrow> nat \<Rightarrow> vstate
     \<Rightarrow> (error option \<times> vstate) outcome" where
  "validateBlobRefs env c [] level st = Ret (None, st)"
| "validateBlobRefs env c (desc # descs) level st =
     (case doValidateBlobContents env c (d_Digest desc) level st of
        Panic p \<Rightarrow> Panic p
      | Ret (Some err, st') \<Rightarrow> Ret (Some err, st')
      | Ret (None, st') \<Rightarrow> validateBlobRefs env c descs level st')"

text \<open>
  \<^verbatim>\<open>doValidateManifest\<close> recurses into the manifests that a manifest references, as
  deep as the registry's contents go; the first argument bounds the depth of the
  recursion, and \<open>None\<close> says that the bound was reached. The deferred function logs
  the result unless the manifest itself was logged as good before.
\<close>

definition manifest_fail ::
  "ManifestReference \<Rightarrow> nat \<Rightarrow> bool \<Rightarrow> error \<Rightarrow> vstate \<Rightarrow> (error option \<times> vstate) outcome" where
  "manifest_fail reference level was_logged err st =
     (if was_logged then Ret (Some err, st)
      else case log_call st (LogManifest reference level (Some err) False) of
             Panic p \<Rightarrow> Panic p
           | Ret st' \<Rightarrow> Ret (Some err, st'))"

fun doValidateManifest ::
  "nat \<Rightarrow> client_env \<Rightarrow> RepoClient \<Rightarrow> ManifestReference \<Rightarrow> nat \<Rightarrow> PlatformFilter \<Rightarrow> vstate
     \<Rightarrow> (error option \<times> vstate) outcome option"
and validateManifestRefs ::
  "nat \<Rightarrow> client_env \<Rightarrow> RepoClient \<Rightarrow> Descriptor list \<Rightarrow> nat \<Rightarrow> PlatformFilter \<Rightarrow> vstate
     \<Rightarrow> (error option \<times> vstate) outcome option" where
  "doValidateManifest 0 env c reference level platformFilter st = None"
| "doValidateManifest (Suc n) env c reference level platformFilter st =
     (if cache_lookup (session st) (validationCacheKey c (ManifestReference_String reference)) then
        (case log_call st (LogManifest reference level None True) of
           Panic p \<Rightarrow> Some (Panic p)
         | Ret st' \<Rightarrow> Some (Ret (None, st')))
      else
        (case DownloadManifest env c reference of
           Inl err \<Rightarrow> Some (manifest_fail reference level False err st)
         | Inr (manifestBytes, manifestMediaType) \<Rightarrow>
             (case ParseManifest env manifestMediaType manifestBytes of
                Inl err \<Rightarrow> Some (manifest_fail reference level False err st)
              | Inr (manifest, manifestDesc) \<Rightarrow>
                  (case log_call st
                          (LogManifest \<lparr>ref_Digest = d_Digest manifestDesc, ref_Tag = []\<rparr>
                             level None False) of
                     Panic p \<Rightarrow> Some (Panic p)
                   | Ret st1 \<Rightarrow>
                       (case validateBlobRefs env c (BlobReferences manifest) (level + 1) st1 of
                          Panic p \<Rightarrow> Some (Panic p)
                        | Ret (Some err, st2) \<Rightarrow> Some (Ret (Some err, st2))
                        | Ret (None, st2) \<Rightarrow>
                            (case validateManifestRefs n env c
                                    (ManifestReferences manifest platformFilter)
                                    (level + 1) platformFilter st2 of
                               None \<Rightarrow> None
                             | Some (Panic p) \<Rightarrow> Some (Panic p)
                             | Some (Ret (Some err, st3)) \<Rightarrow> Some (Ret (Some err, st3))
                             | Some (Ret (None, st3)) \<Rightarrow>
                                 (case cache_store st3
                                         (validationCacheKey c (d_Digest manifestDesc)) of
                                    Panic p \<Rightarrow> Some (Panic p)
                                  | Ret st4 \<Rightarrow>
                                      (case cache_store st4
                                              (validationCacheKey c
                                                 (ManifestReference_String reference)) of
                                         Panic p \<Rightarrow> Some (Panic p)
                                       | Ret st5 \<Rightarrow> Some (Ret (None, st5))))))))))"
| "validateManifestRefs n env c [] level platformFilter st = Some (Ret (None, st))"
| "validateManifestRefs n env c (desc # descs) level platformFilter st =
     (case doValidateManifest n env c \<lparr>ref_Digest = d_Digest desc, ref_Tag = []\<rparr>
             level platformFilter st of
        None \<Rightarrow> None
      | Some (Panic p) \<Rightarrow> Some (Panic p)
      | Some (Ret (Some err, st')) \<Rightarrow> Some (Ret (Some err, st'))
      | Some (Ret (None, st')) \<Rightarrow> validateManifestRefs n env c descs level platformFilter st')"

text \<open>
  The two entry points. A session passed by pointer is updated in place by
  \<^verbatim>\<open>applyDefaults\<close>, so its final state is part of the result.
\<close>

definition ValidateManifest ::
  "nat \<Rightarrow> client_env \<Rightarrow> RepoClient \<Rightarrow> ManifestReference \<Rightarrow> ValidationSession option
     \<Rightarrow> PlatformFilter \<Rightarrow> (error option \<times> vstate) outcome option" where
  "ValidateManifest fuel env c reference sp platformFilter =
     doValidateManifest fuel env c reference 0 platformFilter
       \<lparr>session = applyDefaults sp, logged = []\<rparr>"

definition ValidateBlobContents ::
  "client_env \<Rightarrow> RepoClient \<Rightarrow> digest \<Rightarrow> ValidationSession option
     \<Rightarrow> (error option \<times> vstate) outcome" where
  "ValidateBlobContents env c blobDigest sp =
     doValidateBlobContents env c blobDigest 0 \<lparr>session = applyDefaults sp, logged = []\<rparr>"

subsection \<open>Sessions whose logger and cache are set\<close>

definition session_ready :: "vstate \<Rightarrow> bool" where
  "session_ready st = (Logger (session st) \<noteq> None \<and> isValid (session st) \<noteq> None)"

fun safe_result :: "(error option \<times> vstate) outcome option \<Rightarrow> bool" where
  "safe_result None = True"
| "safe_result (Some (Panic p)) = False"
| "safe_result (Some (Ret (r, st'))) = session_ready st'"

section \<open>The data model\<close>

text \<open>
  The rows of the tables that the processor and the janitor work on, with the columns
  that the code reads and writes. Row identifiers are 64-bit in the code; they are kept
  as integers here, since nothing computes with them. Sizes are computed with, and so
  they are 64-bit words.
\<close>

record Account =
  a_Name :: string
  a_AuthTenantID :: string
  a_UpstreamPeerHostName :: string
  a_ExternalPeerURL :: string
  a_RequiredLabels :: string
  a_InMaintenance :: bool

record Repository =
  r_ID :: int
  r_AccountName :: string
  r_Name :: string
  r_NextManifestSyncAt :: "time option"

record Blob =
  b_ID :: int
  b_AccountName :: string
  b_Digest :: digest
  b_SizeBytes :: "64 word"
  b_StorageID :: string
  b_PushedAt :: time
  b_ValidatedAt :: time
  b_ValidationErrorMessage :: string

record Manifest =
  m_RepositoryID :: int
  m_Digest :: digest
  m_MediaType :: string
  m_SizeBytes :: "64 word"
  m_PushedAt :: time
  m_ValidatedAt :: time
  m_ValidationErrorMessage :: string
  m_NextVulnerabilityCheckAt :: "time option"
  m_VulnerabilityStatus :: string

record Tag =
  t_RepositoryID :: int
  t_Name :: string
  t_Digest :: digest
  t_PushedAt :: time

record db =
  accounts :: "Account list"
  repos :: "Repository list"
  blobs :: "Blob list"
  blob_mounts :: "(int \<times> int) list"
  manifests :: "Manifest list"
  tags :: "Tag list"
  manifest_blob_refs :: "(int \<times> digest \<times> int) list"
  manifest_manifest_refs :: "(int \<times> digest \<times> digest) list"

text \<open>
  The storage driver keeps manifests under (account name, repository name, digest).
\<close>

type_synonym storage = "(string \<times> string \<times> digest) \<rightharpoonup> byte list"

section \<open>Manifest ingest (processor)\<close>

record IncomingManifest =
  im_RepoName :: string
  im_Reference :: ManifestReference
  im_MediaType :: string
  im_Contents :: "byte list"
  im_PushedAt :: time

text \<open>
  What \<^verbatim>\<open>distribution.UnmarshalManifest\<close> gives back, as far as the processor looks at
  it: the dynamic type of the manifest, its config descriptor and its reference list.
\<close>

datatype ManifestKind = Schema2Manifest | OCIManifest | ManifestList | OtherManifest

record ParsedManifest =
  pm_kind :: ManifestKind
  pm_Config :: Descriptor
  pm_References :: "Descriptor list"

text \<open>
  The collaborators of the processor, which the code reaches through interfaces and
  libraries: the quota check, the manifest parser, the storage driver, the JSON
  decoder that finds the label names of a config blob, and the failures of the
  database driver itself, one possible failure per statement that the code checks.
\<close>

datatype db_op =
    OpFindOrCreateRepository
  | OpFindBlobByRepositoryID digest
  | OpSelectStorageID digest
  | OpInsertManifest
  | OpInsertTag

record processor_env =
  checkQuotaForManifestPush :: "db \<Rightarrow> Account \<Rightarrow> error option"
  UnmarshalManifest :: "string \<Rightarrow> byte list \<Rightarrow> string + (ParsedManifest \<times> Descriptor)"
  dbFault :: "db_op \<Rightarrow> error option"
  WriteManifestFault :: "Account \<Rightarrow> string \<Rightarrow> digest \<Rightarrow> byte list \<Rightarrow> error option"
  ReadBlob :: "Account \<Rightarrow> string \<Rightarrow> error + byte list"
  UnmarshalLabels :: "byte list \<Rightarrow> error + string list"

text \<open>
  Modelled from the spec: \<^verbatim>\<open>DB.FindOrCreateRepository\<close> is not among the files at hand.
  The spec: ``Repository materialization: find-or-create the repository row'';
  repositories are ``created lazily on first push/replicate''.
\<close>

definition next_repo_id :: "db \<Rightarrow> int" where
  "next_repo_id d = fold max (map r_ID (repos d)) 0 + 1"

definition FindOrCreateRepository ::
  "processor_env \<Rightarrow> db \<Rightarrow> string \<Rightarrow> Account \<Rightarrow> error + (Repository \<times> db)" where
  "FindOrCreateRepository env d name account =
     (case dbFault env OpFindOrCreateRepository of
        Some e \<Rightarrow> Inl e
      | None \<Rightarrow>
          (case find (\<lambda>r. r_AccountName r = a_Name account \<and> r_Name r = name) (repos d) of
             Some r \<Rightarrow> Inr (r, d)
           | None \<Rightarrow>
               (let r = \<lparr>r_ID = next_repo_id d, r_AccountName = a_Name account,
                         r_Name = name, r_NextManifestSyncAt = None\<rparr>
                in Inr (r, d\<lparr>repos := repos d @ [r]\<rparr>))))"

text \<open>
  Modelled from the spec: \<^verbatim>\<open>keppel.FindBlobByRepositoryID\<close> is not among the files at
  hand. The spec: a descriptor ``exists as a Blob in this repo'', where a blob is in a
  repository through a mount; no row is \<^verbatim>\<open>sql.ErrNoRows\<close>, as the caller tests.
\<close>

definition FindBlobByRepositoryID ::
  "processor_env \<Rightarrow> db \<Rightarrow> digest \<Rightarrow> int \<Rightarrow> Account \<Rightarrow> error + Blob" where
  "FindBlobByRepositoryID env tx dg repoID account =
     (case dbFault env (OpFindBlobByRepositoryID dg) of
        Some e \<Rightarrow> Inl e
      | None \<Rightarrow>
          (case find (\<lambda>b. b_Digest b = dg \<and> b_AccountName b = a_Name account
                           \<and> (b_ID b, repoID) \<in> set (blob_mounts tx)) (blobs tx) of
             None \<Rightarrow> Inl SqlErrNoRows
           | Some b \<Rightarrow> Inr b))"

text \<open>
  Modelled from the spec: \<^verbatim>\<open>Manifest.InsertIfMissing\<close> and \<^verbatim>\<open>Tag.InsertIfMissing\<close> are
  not among the files at hand. The spec: ``Insert the Manifest row if missing
  (idempotent on (repo_id, digest))'' and ``If reference is a tag, upsert the Tag row''.
\<close>

definition Manifest_InsertIfMissing :: "processor_env \<Rightarrow> db \<Rightarrow> Manifest \<Rightarrow> error + db" where
  "Manifest_InsertIfMissing env tx row =
     (case dbFault env OpInsertManifest of
        Some e \<Rightarrow> Inl e
      | None \<Rightarrow>
          (if list_ex (\<lambda>x.
                 m_RepositoryID x = m_RepositoryID row \<and> m_Digest x = m_Digest row) (manifests tx)
           then Inr tx
           else Inr (tx\<lparr>manifests := manifests tx @ [row]\<rparr>)))"

definition Tag_InsertIfMissing :: "processor_env \<Rightarrow> db \<Rightarrow> Tag \<Rightarrow> error + db" where
  "Tag_InsertIfMissing env tx row =
     (case dbFault env OpInsertTag of
        Some e \<Rightarrow> Inl e
      | None \<Rightarrow>
          (if list_ex (\<lambda>x. t_RepositoryID x = t_RepositoryID row \<and> t_Name x = t_Name row) (tags tx)
           then Inr (tx\<lparr>tags :=
                 map (\<lambda>x. if t_RepositoryID x = t_RepositoryID row \<and> t_Name x = t_Name row
                          then row else x) (tags tx)\<rparr>)
           else Inr (tx\<lparr>tags := tags tx @ [row]\<rparr>)))"

text \<open>\<^verbatim>\<open>strings.Split(s, ",")\<close> and \<^verbatim>\<open>strings.Join(xs, ", ")\<close>.\<close>

fun strings_Split :: "char \<Rightarrow> string \<Rightarrow> string list" where
  "strings_Split sep [] = [[]]"
| "strings_Split sep (x # xs) =
     (if x = sep then [] # strings_Split sep xs
      else (case strings_Split sep xs of
              [] \<Rightarrow> [[x]]
            | w # ws \<Rightarrow> (x # w) # ws))"

fun strings_Join :: "string list \<Rightarrow> string \<Rightarrow> string" where
  "strings_Join [] sep = []"
| "strings_Join [x] sep = x"
| "strings_Join (x # y # ys) sep = x @ sep @ strings_Join (y # ys) sep"

text \<open>
  \<^verbatim>\<open>checkManifestHasRequiredLabels\<close>: the list of missing labels. Reading the blob, reading
  all of it and closing it are one call of the storage driver here;
  \<^verbatim>\<open>tx.SelectStr\<close> gives the empty string when there is no row.
\<close>

definition checkManifestHasRequiredLabels ::
  "processor_env \<Rightarrow> db \<Rightarrow> Account \<Rightarrow> ParsedManifest \<Rightarrow> string list \<Rightarrow> error + string list" where
  "checkManifestHasRequiredLabels env tx account manifest requiredLabels =
     (if pm_kind manifest = ManifestList then Inr []
      else
        (let configBlob =
               (if pm_kind manifest = Schema2Manifest \<or> pm_kind manifest = OCIManifest
                then pm_Config manifest
                else \<lparr>d_MediaType = [], d_Size = 0, d_Digest = []\<rparr>)
         in case dbFault env (OpSelectStorageID (d_Digest configBlob)) of
              Some e \<Rightarrow> Inl e
            | None \<Rightarrow>
                (let storageID =
                       (case find (\<lambda>b. b_AccountName b = a_Name account
                                        \<and> b_Digest b = d_Digest configBlob) (blobs tx) of
                          None \<Rightarrow> []
                        | Some b \<Rightarrow> b_StorageID b)
                 in if storageID = [] then
                      Inl (RegistryError
                             (WithDetail (With ErrManifestBlobUnknown []) (d_Digest configBlob)))
                    else
                      (case ReadBlob env account storageID of
                         Inl e \<Rightarrow> Inl e
                       | Inr blobContents \<Rightarrow>
                           (case UnmarshalLabels env blobContents of
                              Inl e \<Rightarrow> Inl e
                            | Inr labels \<Rightarrow>
                                Inr (filter (\<lambda>label. label \<notin> set labels) requiredLabels))))))"

text \<open>The loop that looks for the blob of every reference, in the order of the list.\<close>

fun checkReferencedBlobs ::
  "processor_env \<Rightarrow> db \<Rightarrow> int \<Rightarrow> Account \<Rightarrow> Descriptor list \<Rightarrow> error option" where
  "checkReferencedBlobs env tx repoID account [] = None"
| "checkReferencedBlobs env tx repoID account (desc # descs) =
     (case FindBlobByRepositoryID env tx (d_Digest desc) repoID account of
        Inl err \<Rightarrow>
          (if err = SqlErrNoRows
           then Some (RegistryError
                        (WithDetail (With ErrManifestBlobUnknown []) (d_Digest desc)))
           else Some err)
      | Inr _ \<Rightarrow> checkReferencedBlobs env tx repoID account descs)"

text \<open>
  The validation steps that are skipped for replica accounts: the blobs of the
  references, then the required labels.
\<close>

definition validatePrimaryPush ::
  "processor_env \<Rightarrow> db \<Rightarrow> Repository \<Rightarrow> Account \<Rightarrow> ParsedManifest \<Rightarrow> error option" where
  "validatePrimaryPush env tx repo account manifest =
     (case checkReferencedBlobs env tx (r_ID repo) account (pm_References manifest) of
        Some err \<Rightarrow> Some err
      | None \<Rightarrow>
          (if a_RequiredLabels account \<noteq> [] then
             (case checkManifestHasRequiredLabels env tx account manifest
                     (strings_Split CHR '','' (a_RequiredLabels account)) of
                Inl err \<Rightarrow> Some err
              | Inr missingLabels \<Rightarrow>
                  (if length missingLabels > 0
                   then Some (RegistryError (With ErrManifestInvalid
                          (''missing required labels: '' @ strings_Join missingLabels '', '')))
                   else None))
           else None))"

text \<open>
  The total size: \<^verbatim>\<open>uint64(manifestDesc.Size)\<close> plus \<^verbatim>\<open>uint64(desc.Size)\<close> for every
  reference. The conversion from the signed to the unsigned 64-bit integer keeps the
  bits, and the additions wrap around.
\<close>

definition totalSizeBytes :: "Descriptor \<Rightarrow> ParsedManifest \<Rightarrow> 64 word" where
  "totalSizeBytes manifestDesc manifest =
     fold (\<lambda>desc sizeBytes. sizeBytes + d_Size desc) (pm_References manifest)
       (d_Size manifestDesc)"

text \<open>
  The result of the closure that runs inside the transaction: its error, the state of
  the transaction, the storage, and the variable \<^verbatim>\<open>dbManifest\<close> of the enclosing function.
\<close>

record tx_result =
  tx_err :: "error option"
  tx_db :: db
  tx_storage :: storage
  tx_dbManifest :: "Manifest option"

definition storeManifestInTransaction ::
  "processor_env \<Rightarrow> Account \<Rightarrow> IncomingManifest \<Rightarrow> Repository \<Rightarrow> ParsedManifest \<Rightarrow> Descriptor
     \<Rightarrow> db \<Rightarrow> storage \<Rightarrow> tx_result" where
  "storeManifestInTransaction env account m repo manifest manifestDesc tx sd =
     (case (if a_UpstreamPeerHostName account = []
            then validatePrimaryPush env tx repo account manifest else None) of
        Some err \<Rightarrow> \<lparr>tx_err = Some err, tx_db = tx, tx_storage = sd, tx_dbManifest = None\<rparr>
      | None \<Rightarrow>
          (let sizeBytes = totalSizeBytes manifestDesc manifest;
               dbManifest = \<lparr>m_RepositoryID = r_ID repo,
                             m_Digest = d_Digest manifestDesc,
                             m_MediaType = d_MediaType manifestDesc,
                             m_SizeBytes = sizeBytes,
                             m_PushedAt = im_PushedAt m,
                             m_ValidatedAt = im_PushedAt m,
                             m_ValidationErrorMessage = [],
                             m_NextVulnerabilityCheckAt = None,
                             m_VulnerabilityStatus = []\<rparr>
           in case Manifest_InsertIfMissing env tx dbManifest of
                Inl err \<Rightarrow> \<lparr>tx_err = Some err, tx_db = tx, tx_storage = sd,
                              tx_dbManifest = Some dbManifest\<rparr>
              | Inr tx1 \<Rightarrow>
                  (case (if IsTag (im_Reference m)
                         then Tag_InsertIfMissing env tx1
                                \<lparr>t_RepositoryID = r_ID repo,
                                 t_Name = ref_Tag (im_Reference m),
                                 t_Digest = d_Digest manifestDesc,
                                 t_PushedAt = im_PushedAt m\<rparr>
                         else Inr tx1) of
                     Inl err \<Rightarrow> \<lparr>tx_err = Some err, tx_db = tx1, tx_storage = sd,
                                   tx_dbManifest = Some dbManifest\<rparr>
                   | Inr tx2 \<Rightarrow>
                       (case WriteManifestFault env account (r_Name repo)
                               (d_Digest manifestDesc) (im_Contents m) of
                          Some err \<Rightarrow> \<lparr>tx_err = Some err, tx_db = tx2, tx_storage = sd,
                                         tx_dbManifest = Some dbManifest\<rparr>
                        | None \<Rightarrow>
                            \<lparr>tx_err = None, tx_db = tx2,
                             tx_storage = sd((a_Name account, r_Name repo, d_Digest manifestDesc)
                                              \<mapsto> im_Contents m),
                             tx_dbManifest = Some dbManifest\<rparr>))))"

text \<open>
  Modelled from the spec: \<^verbatim>\<open>Processor.insideTransaction\<close> is not among the files at
  hand. The spec: the body runs in ``one DB transaction'', and ``if it fails the
  transaction aborts''. An aborted transaction leaves the database as it was before;
  what the body did to the storage stays.
\<close>

definition insideTransaction :: "(db \<Rightarrow> storage \<Rightarrow> tx_result) \<Rightarrow> db \<Rightarrow> storage \<Rightarrow> tx_result" where
  "insideTransaction action d sd =
     (let r = action d sd
      in if tx_err r = None then r else r\<lparr>tx_db := d\<rparr>)"

definition failed :: "error \<Rightarrow> db \<Rightarrow> storage \<Rightarrow> tx_result" where
  "failed err d sd = \<lparr>tx_err = Some err, tx_db = d, tx_storage = sd, tx_dbManifest = None\<rparr>"

text \<open>
  \<^verbatim>\<open>ValidateAndStoreManifest\<close>: the returned manifest pointer, the returned error, and the
  database and the storage after the call.
\<close>

definition ValidateAndStoreManifest ::
  "processor_env \<Rightarrow> db \<Rightarrow> storage \<Rightarrow> Account \<Rightarrow> IncomingManifest \<Rightarrow> tx_result" where
  "ValidateAndStoreManifest env d sd account m =
     (case checkQuotaForManifestPush env d account of
        Some err \<Rightarrow> failed err d sd
      | None \<Rightarrow>
          (case FindOrCreateRepository env d (im_RepoName m) account of
             Inl err \<Rightarrow> failed err d sd
           | Inr (repo, d1) \<Rightarrow>
               (case UnmarshalManifest env (im_MediaType m) (im_Contents m) of
                  Inl msg \<Rightarrow> failed (RegistryError (With ErrManifestInvalid msg)) d1 sd
                | Inr (manifest, manifestDesc) \<Rightarrow>
                    (if IsDigest (im_Reference m)
                        \<and> d_Digest manifestDesc \<noteq> ref_Digest (im_Reference m)
                     then failed (RegistryError (With ErrDigestInvalid
                            (''actual manifest digest is '' @ d_Digest manifestDesc))) d1 sd
                     else insideTransaction
                            (storeManifestInTransaction env account m repo manifest manifestDesc)
                            d1 sd))))"

subsection \<open>A small registry to run the ingest on\<close>

definition ex_account :: Account where
  "ex_account =
     \<lparr>a_Name = ''test1'', a_AuthTenantID = ''test1authtenant'', a_UpstreamPeerHostName = [],
      a_ExternalPeerURL = [], a_RequiredLabels = [], a_InMaintenance = False\<rparr>"

definition ex_replica :: Account where
  "ex_replica = ex_account\<lparr>a_UpstreamPeerHostName := ''registry.example.org''\<rparr>"

definition ex_config :: Descriptor where
  "ex_config =
     \<lparr>d_MediaType = ''application/vnd.docker.container.image.v1+json'', d_Size = 1102,
      d_Digest = ''sha256:712d''\<rparr>"

definition ex_layer :: Descriptor where
  "ex_layer =
     \<lparr>d_MediaType = ''application/vnd.docker.image.rootfs.diff.tar.gzip'', d_Size = 1048576,
      d_Digest = ''sha256:3ae1''\<rparr>"

definition ex_missing_layer :: Descriptor where
  "ex_missing_layer = ex_layer\<lparr>d_Digest := ''sha256:dead''\<rparr>"

text \<open>A layer that declares the largest size a signed 64-bit integer can hold.\<close>

definition ex_huge_layer :: Descriptor where
  "ex_huge_layer = ex_layer\<lparr>d_Size := 0x7FFFFFFFFFFFFFFF\<rparr>"

definition ex_blob :: "int \<Rightarrow> Descriptor \<Rightarrow> Blob" where
  "ex_blob i desc =
     \<lparr>b_ID = i, b_AccountName = ''test1'', b_Digest = d_Digest desc, b_SizeBytes = d_Size desc,
      b_StorageID = ''storage-'' @ d_Digest desc, b_PushedAt = 46800, b_ValidatedAt = 46800,
      b_ValidationErrorMessage = []\<rparr>"

definition ex_empty_db :: db where
  "ex_empty_db =
     \<lparr>accounts = [ex_account], repos = [], blobs = [], blob_mounts = [], manifests = [],
      tags = [], manifest_blob_refs = [], manifest_manifest_refs = []\<rparr>"

definition ex_db :: db where
  "ex_db =
     ex_empty_db
       \<lparr>repos := [\<lparr>r_ID = 1, r_AccountName = ''test1'', r_Name = ''foo'',
                   r_NextManifestSyncAt = None\<rparr>],
        blobs := [ex_blob 1 ex_config, ex_blob 2 ex_layer],
        blob_mounts := [(1, 1), (2, 1)]\<rparr>"

text \<open>
  The collaborators: a parser that finds the given references in every non-empty
  document and takes the size of the document as the size of the manifest, a database
  driver that does not fail, and a storage driver whose write fails as given.
\<close>

definition ex_env :: "Descriptor list \<Rightarrow> error option \<Rightarrow> processor_env" where
  "ex_env refs writeFault =
     \<lparr>checkQuotaForManifestPush = (\<lambda>d account. None),
      UnmarshalManifest = (\<lambda>mediaType contents.
         if contents = [] then Inl ''unexpected end of JSON input''
         else Inr (\<lparr>pm_kind = Schema2Manifest, pm_Config = ex_config, pm_References = refs\<rparr>,
                   \<lparr>d_MediaType = mediaType, d_Size = word_of_nat (length contents),
                    d_Digest = ''sha256:8a92''\<rparr>)),
      dbFault = (\<lambda>op. None),
      WriteManifestFault = (\<lambda>account repoName dg contents. writeFault),
      ReadBlob = (\<lambda>account storageID. Inr []),
      UnmarshalLabels = (\<lambda>contents. Inr [])\<rparr>"

definition ex_push :: "ManifestReference \<Rightarrow> IncomingManifest" where
  "ex_push reference =
     \<lparr>im_RepoName = ''foo'', im_Reference = reference,
      im_MediaType = ''application/vnd.docker.distribution.manifest.v2+json'',
      im_Contents = [0x7B, 0x7D], im_PushedAt = 90000\<rparr>"

definition ex_tag :: ManifestReference where
  "ex_tag = \<lparr>ref_Digest = [], ref_Tag = ''latest''\<rparr>"

definition ex_wrong_digest :: ManifestReference where
  "ex_wrong_digest = \<lparr>ref_Digest = ''sha256:0000'', ref_Tag = []\<rparr>"

section \<open>The janitor (internal/tasks/manifests.go)\<close>

text \<open>Decimal digits, for the \<^verbatim>\<open>%d\<close> of the error messages.\<close>

fun show_nat :: "nat \<Rightarrow> string" where
  "show_nat n =
     (if n < 10 then [char_of (48 + n)]
      else show_nat (n div 10) @ [char_of (48 + n mod 10)])"

definition show_int :: "int \<Rightarrow> string" where
  "show_int i = (if i < 0 then CHR ''-'' # show_nat (nat (- i)) else show_nat (nat i))"

definition Repository_FullName :: "Repository \<Rightarrow> string" where
  "Repository_FullName r = r_AccountName r @ ''/'' @ r_Name r"

text \<open>
  The collaborators of the janitor. \<^verbatim>\<open>j.timeNow()\<close> is read several times in one
  sweep, and every reading may differ: \<open>timeNow env n\<close> is the reading of the
  \<open>n\<close>-th call, and \<open>wallClock\<close> is \<^verbatim>\<open>time.Now()\<close>. The statements that the janitor
  sends to the database may each fail in the driver. The processor, the account
  lookup, the storage driver and the vulnerability scanner are reached through their
  interfaces. The order in which a \<^verbatim>\<open>range\<close> loop visits the keys of a map is not
  fixed by the language: the keys are visited by increasing \<open>mapRank\<close>, which may
  differ from one loop to the next.
\<close>

datatype janitor_op =
    OpSelectOutdatedManifest
  | OpSelectRepo int
  | OpUpdateValidation digest
  | OpSelectManifests int
  | OpEnumerateRefs int
  | OpDeleteManifest digest
  | OpSelectVulnCheck
  | OpSelectBlobs digest
  | OpSubmanifestInfo digest
  | OpUpdateManifest digest

record ClairState =
  IsErrored :: bool
  IsIndexed :: bool

record janitor_env =
  timeNow :: "nat \<Rightarrow> time"
  wallClock :: time
  jdbFault :: "janitor_op \<Rightarrow> error option"
  FindAccount :: "db \<Rightarrow> string \<Rightarrow> error + Account"
  FindRepositoryByID :: "db \<Rightarrow> int \<Rightarrow> error + Repository"
  ValidateExistingManifest ::
    "db \<Rightarrow> Account \<Rightarrow> Repository \<Rightarrow> Manifest \<Rightarrow> time \<Rightarrow> error option \<times> db"
  CheckManifestOnPrimary :: "Account \<Rightarrow> Repository \<Rightarrow> ManifestReference \<Rightarrow> error + bool"
  mapRank :: "nat \<Rightarrow> digest \<Rightarrow> nat"
  DeleteManifestFault :: "Account \<Rightarrow> string \<Rightarrow> digest \<Rightarrow> error option"
  ReplicateBlob :: "db \<Rightarrow> Blob \<Rightarrow> Account \<Rightarrow> Repository \<Rightarrow> error + db"
  URLForBlob :: "Account \<Rightarrow> string \<Rightarrow> error + string"
  CheckManifestState :: "digest \<Rightarrow> (digest \<times> string) list \<Rightarrow> error + ClairState"
  GetVulnerabilityReport :: "digest \<Rightarrow> error + string option"

subsection \<open>The manifest validation sweep\<close>

text \<open>
  \<^verbatim>\<open>outdatedManifestSearchQuery\<close>: the \<^verbatim>\<open>WHERE\<close> clause, the \<^verbatim>\<open>ORDER BY\<close> clause as the
  relation ``comes strictly before'', and \<^verbatim>\<open>LIMIT 1\<close>. Among rows that the order does
  not tell apart, the first of the table is taken.
\<close>

definition needsValidation :: "time \<Rightarrow> time \<Rightarrow> Manifest \<Rightarrow> bool" where
  "needsValidation t1 t2 m =
     (m_ValidatedAt m < t1 \<or> (m_ValidatedAt m < t2 \<and> m_ValidationErrorMessage m \<noteq> []))"

definition comesBefore :: "Manifest \<Rightarrow> Manifest \<Rightarrow> bool" where
  "comesBefore a b =
     ((m_ValidationErrorMessage a \<noteq> [] \<and> m_ValidationErrorMessage b = [])
      \<or> ((m_ValidationErrorMessage a \<noteq> []) = (m_ValidationErrorMessage b \<noteq> [])
          \<and> m_ValidatedAt a < m_ValidatedAt b))"

fun firstInOrder :: "Manifest list \<Rightarrow> Manifest option" where
  "firstInOrder [] = None"
| "firstInOrder (m # ms) =
     (case firstInOrder ms of
        None \<Rightarrow> Some m
      | Some b \<Rightarrow> (if comesBefore b m then Some b else Some m))"

definition outdatedManifestSearchQuery :: "db \<Rightarrow> time \<Rightarrow> time \<Rightarrow> Manifest option" where
  "outdatedManifestSearchQuery d t1 t2 = firstInOrder (filter (needsValidation t1 t2) (manifests d))"

text \<open>\<^verbatim>\<open>db.SelectOne\<close>: no row is \<^verbatim>\<open>sql.ErrNoRows\<close>.\<close>

definition SelectOne :: "error option \<Rightarrow> 'a option \<Rightarrow> error + 'a" where
  "SelectOne fault row =
     (case fault of
        Some e \<Rightarrow> Inl e
      | None \<Rightarrow> (case row of None \<Rightarrow> Inl SqlErrNoRows | Some x \<Rightarrow> Inr x))"

text \<open>
  The deferred function of a sweep: it leaves success and the idle sentinel alone and
  puts the name of the sweep before every other error.
\<close>

definition sweepResult :: "string \<Rightarrow> error option \<Rightarrow> error option" where
  "sweepResult prefix returnErr =
     (case returnErr of
        None \<Rightarrow> None
      | Some e \<Rightarrow> (if e \<noteq> SqlErrNoRows then Some (GenericError (prefix @ error_Error e))
                   else Some e))"

text \<open>The two \<^verbatim>\<open>UPDATE manifests SET ... WHERE repo_id = ... AND digest = ...\<close>.\<close>

definition updateValidation :: "db \<Rightarrow> int \<Rightarrow> digest \<Rightarrow> time \<Rightarrow> string \<Rightarrow> db" where
  "updateValidation d repoID dg t msg =
     d\<lparr>manifests :=
          map (\<lambda>x. if m_RepositoryID x = repoID \<and> m_Digest x = dg
                   then x\<lparr>m_ValidatedAt := t, m_ValidationErrorMessage := msg\<rparr> else x)
            (manifests d)\<rparr>"

text \<open>A row of another manifest than the given one: the key is (repo_id, digest).\<close>

definition otherManifest :: "int \<Rightarrow> digest \<Rightarrow> Manifest \<Rightarrow> bool" where
  "otherManifest repoID dg x = (\<not> (m_RepositoryID x = repoID \<and> m_Digest x = dg))"

definition validateSelectedManifest :: "janitor_env \<Rightarrow> db \<Rightarrow> Manifest \<Rightarrow> error option \<times> db" where
  "validateSelectedManifest env d manifest =
     (case SelectOne (jdbFault env (OpSelectRepo (m_RepositoryID manifest)))
             (find (\<lambda>r. r_ID r = m_RepositoryID manifest) (repos d)) of
        Inl err \<Rightarrow>
          (Some (GenericError (''cannot find repo '' @ show_int (m_RepositoryID manifest)
                   @ '' for manifest '' @ m_Digest manifest @ '': '' @ error_Error err)), d)
      | Inr repo \<Rightarrow>
          (case FindAccount env d (r_AccountName repo) of
             Inl err \<Rightarrow>
               (Some (GenericError (''cannot find account for manifest ''
                        @ Repository_FullName repo @ ''/'' @ m_Digest manifest @ '': ''
                        @ error_Error err)), d)
           | Inr account \<Rightarrow>
               (case ValidateExistingManifest env d account repo manifest (timeNow env 2) of
                  (None, d1) \<Rightarrow>
                    (case jdbFault env (OpUpdateValidation (m_Digest manifest)) of
                       Some err \<Rightarrow> (Some err, d1)
                     | None \<Rightarrow>
                         (None, updateValidation d1 (r_ID repo) (m_Digest manifest)
                                  (timeNow env 3) []))
                | (Some err, d1) \<Rightarrow>
                    (case jdbFault env (OpUpdateValidation (m_Digest manifest)) of
                       Some updateErr \<Rightarrow>
                         (Some (GenericError (error_Error err
                            @ '' (additional error encountered while recording validation error: ''
                            @ error_Error updateErr @ '')'')), d1)
                     | None \<Rightarrow>
                         (Some err, updateValidation d1 (r_ID repo) (m_Digest manifest)
                                      (timeNow env 3) (error_Error err))))))"

definition ValidateNextManifest :: "janitor_env \<Rightarrow> db \<Rightarrow> error option \<times> db" where
  "ValidateNextManifest env d =
     (let maxSuccessfulValidatedAt = timeNow env 0 - 24 * 3600;
          maxFailedValidatedAt = timeNow env 1 - 10 * 60
      in case SelectOne (jdbFault env OpSelectOutdatedManifest)
                (outdatedManifestSearchQuery d maxSuccessfulValidatedAt maxFailedValidatedAt) of
           Inl err \<Rightarrow> (sweepResult ''while validating a manifest: '' (Some err), d)
         | Inr manifest \<Rightarrow>
             (case validateSelectedManifest env d manifest of
                (returnErr, d') \<Rightarrow> (sweepResult ''while validating a manifest: '' returnErr, d')))"

subsection \<open>A small registry to run the validation sweep on\<close>

definition ex_manifest :: "digest \<Rightarrow> time \<Rightarrow> string \<Rightarrow> Manifest" where
  "ex_manifest dg validatedAt msg =
     \<lparr>m_RepositoryID = 1, m_Digest = dg,
      m_MediaType = ''application/vnd.docker.distribution.manifest.v2+json'',
      m_SizeBytes = 1367, m_PushedAt = 46800, m_ValidatedAt = validatedAt,
      m_ValidationErrorMessage = msg, m_NextVulnerabilityCheckAt = None,
      m_VulnerabilityStatus = []\<rparr>"

definition ex_janitor_db :: "Manifest list \<Rightarrow> db" where
  "ex_janitor_db ms = ex_db\<lparr>manifests := ms\<rparr>"

text \<open>
  A janitor whose clock stands at the given time, whose database and storage do not
  fail, and whose processor finds the given manifests broken.
\<close>

definition ex_janitor :: "time \<Rightarrow> digest list \<Rightarrow> janitor_env" where
  "ex_janitor now broken =
     \<lparr>timeNow = (\<lambda>n. now),
      wallClock = now,
      jdbFault = (\<lambda>op. None),
      FindAccount = (\<lambda>d name. case find (\<lambda>a. a_Name a = name) (accounts d) of
                                 None \<Rightarrow> Inl SqlErrNoRows | Some a \<Rightarrow> Inr a),
      FindRepositoryByID = (\<lambda>d i. case find (\<lambda>r. r_ID r = i) (repos d) of
                                    None \<Rightarrow> Inl SqlErrNoRows | Some r \<Rightarrow> Inr r),
      ValidateExistingManifest = (\<lambda>d account repo manifest t.
         (if m_Digest manifest \<in> set broken
          then Some (GenericError ''manifest blob unknown to registry'') else None, d)),
      CheckManifestOnPrimary = (\<lambda>account repo reference. Inr True),
      mapRank = (\<lambda>pass dg. 0),
      DeleteManifestFault = (\<lambda>account repoName dg. None),
      ReplicateBlob = (\<lambda>d blob account repo. Inr d),
      URLForBlob = (\<lambda>account storageID. Inr (''https://storage.example.org/'' @ storageID)),
      CheckManifestState = (\<lambda>dg layers. Inr \<lparr>IsErrored = False, IsIndexed = True\<rparr>),
      GetVulnerabilityReport = (\<lambda>dg. Inr (Some ''Clean''))\<rparr>"

subsection \<open>The replica manifest sync\<close>

text \<open>
  What \<^verbatim>\<open>performManifestSync\<close> works on: the database and the storage, the two maps
  \<^verbatim>\<open>shallDeleteManifest\<close> and \<^verbatim>\<open>manifestWasDeleted\<close> (both only ever hold \<^verbatim>\<open>true\<close>, so
  they are kept as the lists of their keys), and, for the record, the deletions made so
  far in the database and in the storage, in the order of their happening.
\<close>

datatype sync_event = DbDelete digest | StorageDelete digest

record sync_state =
  ss_db :: db
  ss_storage :: storage
  shallDeleteManifest :: "digest list"
  manifestWasDeleted :: "digest list"
  deletions :: "sync_event list"

text \<open>
  \<^verbatim>\<open>j.db.Delete(&keppel.Manifest{RepositoryID: repo.ID, Digest: digest})\<close> takes the row
  with that key away. A refusal of the database, such as a violated constraint, is a
  failure of the statement.
\<close>

definition deleteManifestRow :: "db \<Rightarrow> int \<Rightarrow> digest \<Rightarrow> db" where
  "deleteManifestRow d repoID dg = d\<lparr>manifests := filter (otherManifest repoID dg) (manifests d)\<rparr>"

text \<open>
  One run of the loop labelled \<^verbatim>\<open>MANIFEST\<close> over the keys in the given order. The flag is
  \<^verbatim>\<open>deletedSomething\<close>. An error ends the run; what was deleted before stays deleted.
\<close>

fun deletionPass ::
  "janitor_env \<Rightarrow> Account \<Rightarrow> Repository \<Rightarrow> (digest \<Rightarrow> digest list) \<Rightarrow> digest list
     \<Rightarrow> sync_state \<Rightarrow> bool \<Rightarrow> error option \<times> sync_state \<times> bool" where
  "deletionPass env account repo parentDigestsOf [] st deletedSomething =
     (None, st, deletedSomething)"
| "deletionPass env account repo parentDigestsOf (dg # rest) st deletedSomething =
     (if list_ex (\<lambda>parentDigest. parentDigest \<notin> set (manifestWasDeleted st))
           (parentDigestsOf dg)
      then deletionPass env account repo parentDigestsOf rest st deletedSomething
      else
        (case jdbFault env (OpDeleteManifest dg) of
           Some err \<Rightarrow>
             (Some (GenericError (''cannot remove deleted manifest '' @ dg @ '' in repo ''
                      @ Repository_FullName repo @ '' from DB: '' @ error_Error err)),
              st, deletedSomething)
         | None \<Rightarrow>
             (let st1 = st\<lparr>ss_db := deleteManifestRow (ss_db st) (r_ID repo) dg,
                            deletions := deletions st @ [DbDelete dg]\<rparr>
              in case DeleteManifestFault env account (r_Name repo) dg of
                   Some err \<Rightarrow>
                     (Some (GenericError (''cannot remove deleted manifest '' @ dg
                              @ '' in repo '' @ Repository_FullName repo
                              @ '' from storage: '' @ error_Error err)),
                      st1, deletedSomething)
                 | None \<Rightarrow>
                     deletionPass env account repo parentDigestsOf rest
                       (st1\<lparr>ss_storage :=
                               (ss_storage st1)((a_Name account, r_Name repo, dg) := None),
                             deletions := deletions st1 @ [StorageDelete dg],
                             shallDeleteManifest := removeAll dg (shallDeleteManifest st1),
                             manifestWasDeleted := dg # manifestWasDeleted st1\<rparr>)
                       True)))"

definition stuckError :: "Repository \<Rightarrow> digest list \<Rightarrow> error" where
  "stuckError repo undeletedDigests =
     GenericError (''cannot remove deleted manifests ['' @ strings_Join undeletedDigests '' ''
       @ ''] in repo '' @ Repository_FullName repo
       @ '' because they are still being referenced by other manifests''
       @ '' (this smells like an inconsistency on the primary account)'')"

text \<open>
  A run that is not ended by an error and that deleted something leaves fewer keys in
  \<^verbatim>\<open>shallDeleteManifest\<close>; this is why the outer loop comes to an end.
\<close>

lemma deletionPass_length:
  "deletionPass env account repo parents xs st b = (e, st', b')
     \<Longrightarrow> length (shallDeleteManifest st') \<le> length (shallDeleteManifest st)
       \<and> (set xs \<subseteq> set (shallDeleteManifest st) \<and> \<not> b \<and> b'
            \<longrightarrow> length (shallDeleteManifest st') < length (shallDeleteManifest st))"
proof (induction xs arbitrary: st b)
  case Nil
  then show ?case by auto
next
  case (Cons dg rest)
  show ?case
  proof (cases "list_ex (\<lambda>p. p \<notin> set (manifestWasDeleted st)) (parents dg)")
    case True
    with Cons.prems have "deletionPass env account repo parents rest st b = (e, st', b')"
      by simp
    from Cons.IH [OF this] show ?thesis by auto
  next
    case free: False
    show ?thesis
    proof (cases "jdbFault env (OpDeleteManifest dg)")
      case (Some err)
      with free Cons.prems show ?thesis by auto
    next
      case db: None
      show ?thesis
      proof (cases "DeleteManifestFault env account (r_Name repo) dg")
        case (Some err)
        with free db Cons.prems show ?thesis by (auto simp: Let_def)
      next
        case None
        let ?st2 = "st\<lparr>ss_db := deleteManifestRow (ss_db st) (r_ID repo) dg,
                       deletions := deletions st @ [DbDelete dg],
                       ss_storage := (ss_storage st)((a_Name account, r_Name repo, dg) := None),
                       deletions := deletions st @ [DbDelete dg] @ [StorageDelete dg],
                       shallDeleteManifest := removeAll dg (shallDeleteManifest st),
                       manifestWasDeleted := dg # manifestWasDeleted st\<rparr>"
        from free db None Cons.prems
        have "deletionPass env account repo parents rest ?st2 True = (e, st', b')"
          by (simp add: Let_def)
        from Cons.IH [OF this]
        have le: "length (shallDeleteManifest st') \<le> length (removeAll dg (shallDeleteManifest st))"
          by simp
        have "length (removeAll dg (shallDeleteManifest st)) \<le> length (shallDeleteManifest st)"
          by simp
        with le have weak: "length (shallDeleteManifest st') \<le> length (shallDeleteManifest st)"
          by (rule le_trans)
        have strict: "length (shallDeleteManifest st') < length (shallDeleteManifest st)"
          if "dg \<in> set (shallDeleteManifest st)"
          using le length_removeAll_less [OF that] by (rule le_less_trans)
        from weak strict show ?thesis by auto
      qed
    qed
  qed
qed

text \<open>
  The outer loop. Every \<^verbatim>\<open>range\<close> over \<^verbatim>\<open>shallDeleteManifest\<close> has an order of its own:
  the loops are counted, and the \<open>n\<close>-th one visits the keys by increasing
  \<open>mapRank env n\<close>.
\<close>

function deleteInOrder ::
  "janitor_env \<Rightarrow> Account \<Rightarrow> Repository \<Rightarrow> (digest \<Rightarrow> digest list) \<Rightarrow> nat \<Rightarrow> sync_state
     \<Rightarrow> error option \<times> sync_state" where
  "deleteInOrder env account repo parentDigestsOf n st =
     (if shallDeleteManifest st = [] then (None, st)
      else
        (case deletionPass env account repo parentDigestsOf
                (sort_key (mapRank env n) (shallDeleteManifest st)) st False of
           (Some err, st', deletedSomething) \<Rightarrow> (Some err, st')
         | (None, st', deletedSomething) \<Rightarrow>
             (if \<not> deletedSomething
              then (Some (stuckError repo
                            (sort_key (mapRank env (n + 1)) (shallDeleteManifest st'))), st')
              else deleteInOrder env account repo parentDigestsOf (n + 2) st')))"
  by pat_completeness auto
termination
  apply (relation "measure (\<lambda>(env, account, repo, parents, n, st). length (shallDeleteManifest st))")
   apply simp
  apply (auto dest!: sym [of "(None, _, True)"] deletionPass_length)
  done

text \<open>The first loop: which manifests are gone on the primary account.\<close>

fun collectDeleted ::
  "janitor_env \<Rightarrow> Account \<Rightarrow> Repository \<Rightarrow> Manifest list \<Rightarrow> digest list \<Rightarrow> error + digest list"
  where
  "collectDeleted env account repo [] shallDelete = Inr shallDelete"
| "collectDeleted env account repo (manifest # rest) shallDelete =
     (case CheckManifestOnPrimary env account repo
             \<lparr>ref_Digest = m_Digest manifest, ref_Tag = []\<rparr> of
        Inl err \<Rightarrow>
          Inl (GenericError (''cannot check existence of manifest ''
                 @ Repository_FullName repo @ ''/'' @ m_Digest manifest
                 @ '' on primary account: '' @ error_Error err))
      | Inr exists \<Rightarrow>
          collectDeleted env account repo rest
            (if \<not> exists then List.insert (m_Digest manifest) shallDelete else shallDelete))"

text \<open>
  \<^verbatim>\<open>parentDigestsOf\<close>, from the rows of \<^verbatim>\<open>manifest_manifest_refs\<close> of the repository.
\<close>

definition parentDigestsIn :: "db \<Rightarrow> Repository \<Rightarrow> digest \<Rightarrow> digest list" where
  "parentDigestsIn d repo childDigest =
     map (\<lambda>(repoID, parentDigest, child). parentDigest)
       (filter (\<lambda>(repoID, parentDigest, child). repoID = r_ID repo \<and> child = childDigest)
          (manifest_manifest_refs d))"

definition performManifestSync ::
  "janitor_env \<Rightarrow> db \<Rightarrow> storage \<Rightarrow> Account \<Rightarrow> Repository \<Rightarrow> error option \<times> sync_state" where
  "performManifestSync env d sd account repo =
     (let st0 = \<lparr>ss_db = d, ss_storage = sd, shallDeleteManifest = [],
                 manifestWasDeleted = [], deletions = []\<rparr>
      in case jdbFault env (OpSelectManifests (r_ID repo)) of
           Some err \<Rightarrow>
             (Some (GenericError (''cannot list manifests in repo '' @ Repository_FullName repo
                      @ '': '' @ error_Error err)), st0)
         | None \<Rightarrow>
             (case collectDeleted env account repo
                     (filter (\<lambda>m. m_RepositoryID m = r_ID repo) (manifests d)) [] of
                Inl err \<Rightarrow> (Some err, st0)
              | Inr shallDelete \<Rightarrow>
                  (case jdbFault env (OpEnumerateRefs (r_ID repo)) of
                     Some err \<Rightarrow>
                       (Some (GenericError (''cannot enumerate manifest-manifest refs in repo ''
                                @ Repository_FullName repo @ '': '' @ error_Error err)), st0)
                   | None \<Rightarrow>
                       deleteInOrder env account repo (parentDigestsIn d repo) 0
                         (st0\<lparr>shallDeleteManifest := shallDelete\<rparr>))))"

subsection \<open>Orders of deletion\<close>

text \<open>
  In a record of deletions, the database row of a manifest goes only after the rows of
  all its parents, and the storage object of a manifest goes only after its row.
\<close>

definition parentsFirst :: "(digest \<Rightarrow> digest list) \<Rightarrow> sync_event list \<Rightarrow> bool" where
  "parentsFirst parents tr =
     (\<forall>pre c post. tr = pre @ DbDelete c # post
        \<longrightarrow> (\<forall>p \<in> set (parents c). DbDelete p \<in> set pre))"

definition rowFirst :: "sync_event list \<Rightarrow> bool" where
  "rowFirst tr =
     (\<forall>pre c post. tr = pre @ StorageDelete c # post \<longrightarrow> DbDelete c \<in> set pre)"

definition sync_inv :: "(digest \<Rightarrow> digest list) \<Rightarrow> sync_state \<Rightarrow> bool" where
  "sync_inv parents st =
     (parentsFirst parents (deletions st) \<and> rowFirst (deletions st)
      \<and> (\<forall>c \<in> set (manifestWasDeleted st). DbDelete c \<in> set (deletions st)))"

subsection \<open>A replica repository to run the sync on\<close>

text \<open>
  A manifest list \<open>sha256:1111\<close> with the image \<open>sha256:2222\<close> as its child, and one more
  image; the primary account has lost the manifests with the given digests.
\<close>

definition ex_sync_db :: db where
  "ex_sync_db =
     ex_db\<lparr>manifests := [ex_manifest ''sha256:2222'' 90000 [], ex_manifest ''sha256:1111'' 90000 [],
                          ex_manifest ''sha256:3333'' 90000 []],
           manifest_manifest_refs := [(1, ''sha256:1111'', ''sha256:2222'')]\<rparr>"

definition ex_sync_janitor :: "digest list \<Rightarrow> janitor_env" where
  "ex_sync_janitor gone =
     (ex_janitor 200000 [])
       \<lparr>CheckManifestOnPrimary := (\<lambda>account repo reference. Inr (ref_Digest reference \<notin> set gone))\<rparr>"

definition ex_repo :: Repository where
  "ex_repo = \<lparr>r_ID = 1, r_AccountName = ''test1'', r_Name = ''foo'', r_NextManifestSyncAt = None\<rparr>"

subsection \<open>The vulnerability check sweep\<close>

text \<open>
  Modelled from the spec: \<^verbatim>\<open>clair.MergeSeverities\<close> and the severities are not among the
  files at hand (only a test of them is). The spec: ``Ordered severities: clean <
  negligible < low < medium < high < critical < unknown. A special pending value
  dominates all others. Merge of an empty set is clean.'' A severity is its name.
\<close>

definition severityOrder :: "string list" where
  "severityOrder =
     [''Clean'', ''Negligible'', ''Low'', ''Medium'', ''High'', ''Critical'', ''Unknown'',
      ''Pending'']"

definition UnknownSeverity :: string where
  "UnknownSeverity = ''Unknown''"

fun severityRank :: "string list \<Rightarrow> string \<Rightarrow> nat" where
  "severityRank [] s = 0"
| "severityRank (x # xs) s = (if x = s then 0 else Suc (severityRank xs s))"

definition MergeSeverities :: "string list \<Rightarrow> string" where
  "MergeSeverities sevs =
     fold (\<lambda>s merged. if severityRank severityOrder merged < severityRank severityOrder s
                        then s else merged) sevs ''Clean''"

text \<open>
  \<^verbatim>\<open>vulnCheckSelectQuery\<close>: manifests without a check first, then by schedule; among rows
  that the order does not tell apart, the first of the table is taken.
\<close>

definition needsVulnCheck :: "time \<Rightarrow> Manifest \<Rightarrow> bool" where
  "needsVulnCheck t m =
     (case m_NextVulnerabilityCheckAt m of None \<Rightarrow> True | Some at \<Rightarrow> at < t)"

definition checkedBefore :: "Manifest \<Rightarrow> Manifest \<Rightarrow> bool" where
  "checkedBefore a b =
     (case (m_NextVulnerabilityCheckAt a, m_NextVulnerabilityCheckAt b) of
        (None, None) \<Rightarrow> False
      | (None, Some tb) \<Rightarrow> True
      | (Some ta, None) \<Rightarrow> False
      | (Some ta, Some tb) \<Rightarrow> ta < tb)"

fun firstDue :: "Manifest list \<Rightarrow> Manifest option" where
  "firstDue [] = None"
| "firstDue (m # ms) =
     (case firstDue ms of
        None \<Rightarrow> Some m
      | Some b \<Rightarrow> (if checkedBefore b m then Some b else Some m))"

definition vulnCheckSelectQuery :: "db \<Rightarrow> time \<Rightarrow> Manifest option" where
  "vulnCheckSelectQuery d t = firstDue (filter (needsVulnCheck t) (manifests d))"

text \<open>\<^verbatim>\<open>vulnCheckBlobSelectQuery\<close> and \<^verbatim>\<open>vulnCheckSubmanifestInfoQuery\<close>.\<close>

definition vulnCheckBlobSelectQuery :: "db \<Rightarrow> int \<Rightarrow> digest \<Rightarrow> Blob list" where
  "vulnCheckBlobSelectQuery d repoID dg =
     concat (map (\<lambda>(rid, mdg, blobID). filter (\<lambda>b. b_ID b = blobID) (blobs d))
               (filter (\<lambda>(rid, mdg, blobID). rid = repoID \<and> mdg = dg) (manifest_blob_refs d)))"

definition vulnCheckSubmanifestInfoQuery :: "db \<Rightarrow> digest \<Rightarrow> string list" where
  "vulnCheckSubmanifestInfoQuery d dg =
     concat (map (\<lambda>(rid, parent, child).
                    map m_VulnerabilityStatus (filter (\<lambda>m. m_Digest m = child) (manifests d)))
               (filter (\<lambda>(rid, parent, child). parent = dg) (manifest_manifest_refs d)))"

text \<open>
  The loop over the blobs of the manifest. It ends with the layers for the scanner, or
  it makes \<^verbatim>\<open>doVulnerabilityCheck\<close> return (with or without an error), or, after a blob
  was replicated, it makes \<^verbatim>\<open>doVulnerabilityCheck\<close> start again on the new database. The
  manifest is passed by pointer: its changes are seen by the caller.
\<close>

datatype blob_scan =
    Layers "(digest \<times> string) list"
  | Return "error option" Manifest
  | Restart Manifest db

fun scanBlobs ::
  "janitor_env \<Rightarrow> db \<Rightarrow> Account \<Rightarrow> Repository \<Rightarrow> Manifest \<Rightarrow> Blob list
     \<Rightarrow> (digest \<times> string) list \<Rightarrow> blob_scan" where
  "scanBlobs env d account repo manifest [] layers = Layers layers"
| "scanBlobs env d account repo manifest (blob # rest) layers =
     (if b_StorageID blob = [] then
        (let manifest' = manifest\<lparr>m_NextVulnerabilityCheckAt :=
                                     Some (m_PushedAt manifest + 10 * 60)\<rparr>
         in if m_PushedAt manifest + 10 * 60 < wallClock env then Return None manifest'
            else (case ReplicateBlob env d blob account repo of
                    Inl err \<Rightarrow> Return (Some err) manifest'
                  | Inr d' \<Rightarrow> Restart manifest' d'))
      else
        (case URLForBlob env account (b_StorageID blob) of
           Inl err \<Rightarrow> Return (Some err) manifest
         | Inr blobURL \<Rightarrow>
             scanBlobs env d account repo manifest rest (layers @ [(b_Digest blob, blobURL)])))"

text \<open>
  What follows the loop: the severities of the constituent images, the state of the
  scanner, the merged status and the next check.
\<close>

definition askClair ::
  "janitor_env \<Rightarrow> db \<Rightarrow> Manifest \<Rightarrow> Blob list \<Rightarrow> (digest \<times> string) list
     \<Rightarrow> error option \<times> Manifest" where
  "askClair env d manifest blobList layers =
     (case jdbFault env (OpSubmanifestInfo (m_Digest manifest)) of
        Some err \<Rightarrow> (Some err, manifest)
      | None \<Rightarrow>
          (let severities = vulnCheckSubmanifestInfoQuery d (m_Digest manifest);
               finish = (\<lambda>sevs.
                 (let status = MergeSeverities sevs
                  in (None, manifest\<lparr>m_VulnerabilityStatus := status,
                                     m_NextVulnerabilityCheckAt :=
                                       (if status = UnknownSeverity
                                        then Some (timeNow env 1 + 2 * 60)
                                        else Some (timeNow env 1 + 1 * 3600))\<rparr>)))
           in if length blobList > 0 then
                (case CheckManifestState env (m_Digest manifest) layers of
                   Inl err \<Rightarrow> (Some err, manifest)
                 | Inr clairState \<Rightarrow>
                     (if IsErrored clairState then
                        (Some (GenericError (''Clair reports indexing of '' @ m_Digest manifest
                                 @ '' as errored'')), manifest)
                      else if IsIndexed clairState then
                        (case GetVulnerabilityReport env (m_Digest manifest) of
                           Inl err \<Rightarrow> (Some err, manifest)
                         | Inr None \<Rightarrow>
                             (Some (GenericError (''Clair reports indexing of ''
                                      @ m_Digest manifest
                                      @ '' as finished, but vulnerability report is 404'')),
                              manifest)
                         | Inr (Some severity) \<Rightarrow> finish (severities @ [severity]))
                      else finish (severities @ [UnknownSeverity])))
              else finish severities))"

text \<open>
  \<^verbatim>\<open>doVulnerabilityCheck\<close> calls itself after it has replicated a blob, as often as
  blobs without storage turn up; the first argument bounds the number of these calls,
  and \<open>None\<close> says that the bound was reached.
\<close>

fun doVulnerabilityCheck ::
  "nat \<Rightarrow> janitor_env \<Rightarrow> db \<Rightarrow> Account \<Rightarrow> Repository \<Rightarrow> Manifest
     \<Rightarrow> (error option \<times> Manifest \<times> db) option" where
  "doVulnerabilityCheck 0 env d account repo manifest = None"
| "doVulnerabilityCheck (Suc n) env d account repo manifest =
     (if a_InMaintenance account then
        Some (None, manifest\<lparr>m_NextVulnerabilityCheckAt := Some (timeNow env 1 + 1 * 3600)\<rparr>, d)
      else
        (case jdbFault env (OpSelectBlobs (m_Digest manifest)) of
           Some err \<Rightarrow> Some (Some err, manifest, d)
         | None \<Rightarrow>
             (let blobList = vulnCheckBlobSelectQuery d (m_RepositoryID manifest) (m_Digest manifest)
              in case scanBlobs env d account repo manifest blobList [] of
                   Return err manifest' \<Rightarrow> Some (err, manifest', d)
                 | Restart manifest' d' \<Rightarrow> doVulnerabilityCheck n env d' account repo manifest'
                 | Layers layers \<Rightarrow>
                     (case askClair env d manifest blobList layers of
                        (err, manifest') \<Rightarrow> Some (err, manifest', d)))))"

text \<open>\<^verbatim>\<open>j.db.Update(&manifest)\<close> writes all columns of the row with the manifest's key.\<close>

definition updateManifestRow :: "db \<Rightarrow> Manifest \<Rightarrow> db" where
  "updateManifestRow d manifest =
     d\<lparr>manifests :=
          map (\<lambda>x. if m_RepositoryID x = m_RepositoryID manifest \<and> m_Digest x = m_Digest manifest
                   then manifest else x) (manifests d)\<rparr>"

definition CheckVulnerabilitiesForNextManifest ::
  "nat \<Rightarrow> janitor_env \<Rightarrow> db \<Rightarrow> (error option \<times> db) option" where
  "CheckVulnerabilitiesForNextManifest fuel env d =
     (let prefix = ''while updating vulnerability status for a manifest: ''
      in case SelectOne (jdbFault env OpSelectVulnCheck) (vulnCheckSelectQuery d (timeNow env 0)) of
           Inl err \<Rightarrow> Some (sweepResult prefix (Some err), d)
         | Inr manifest \<Rightarrow>
             (case FindRepositoryByID env d (m_RepositoryID manifest) of
                Inl err \<Rightarrow>
                  Some (sweepResult prefix
                          (Some (GenericError (''cannot find repo for manifest ''
                                   @ m_Digest manifest @ '': '' @ error_Error err))), d)
              | Inr repo \<Rightarrow>
                  (case FindAccount env d (r_AccountName repo) of
                     Inl err \<Rightarrow>
                       Some (sweepResult prefix
                               (Some (GenericError (''cannot find account for repo ''
                                        @ Repository_FullName repo @ '': '' @ error_Error err))),
                             d)
                   | Inr account \<Rightarrow>
                       (case doVulnerabilityCheck fuel env d account repo manifest of
                          None \<Rightarrow> None
                        | Some (Some err, manifest', d') \<Rightarrow>
                            Some (sweepResult prefix (Some err), d')
                        | Some (None, manifest', d') \<Rightarrow>
                            (case jdbFault env (OpUpdateManifest (m_Digest manifest')) of
                               Some err \<Rightarrow> Some (sweepResult prefix (Some err), d')
                             | None \<Rightarrow>
                                 Some (sweepResult prefix None,
                                       updateManifestRow d' manifest'))))))"

subsection \<open>A manifest whose indexing the scanner reports as errored\<close>

definition ex_vuln_db :: db where
  "ex_vuln_db =
     ex_db\<lparr>manifests := [ex_manifest ''sha256:8a92'' 90000 []],
           manifest_blob_refs := [(1, ''sha256:8a92'', 1), (1, ''sha256:8a92'', 2)]\<rparr>"

definition ex_vuln_janitor :: "ClairState \<Rightarrow> janitor_env" where
  "ex_vuln_janitor state =
     (ex_janitor 200000 [])\<lparr>CheckManifestState := (\<lambda>dg layers. Inr state)\<rparr>"

section \<open>Properties of the validation session\<close>

lemma log_call_ready:
  "session_ready st \<Longrightarrow> \<exists>st'. log_call st ev = Ret st' \<and> session_ready st'"
  by (auto simp: session_ready_def log_call_def split: option.splits)

lemma cache_store_ready:
  "session_ready st \<Longrightarrow> \<exists>st'. cache_store st k = Ret st' \<and> session_ready st'"
  by (auto simp: session_ready_def cache_store_def split: option.splits)

lemma blob_finish_ready:
  assumes "session_ready st"
  shows "\<exists>r st'. blob_finish env c d level e st = Ret (r, st') \<and> session_ready st'"
proof -
  obtain st' where "log_call st (LogBlob d level (if e = None then closeError env c d else e) False) = Ret st'"
    and "session_ready st'"
    using log_call_ready [OF assms] by blast
  then show ?thesis by (simp add: blob_finish_def Let_def)
qed

lemma doValidateBlobContents_ready:
  assumes "session_ready st"
  shows "\<exists>r st'. doValidateBlobContents env c d level st = Ret (r, st') \<and> session_ready st'"
proof (cases "cache_lookup (session st) (validationCacheKey c d)")
  case True
  obtain st' where "log_call st (LogBlob d level None True) = Ret st'" "session_ready st'"
    using log_call_ready [OF assms] by blast
  with True show ?thesis by (simp add: doValidateBlobContents_def)
next
  case miss: False
  show ?thesis
  proof (cases "DownloadBlob env c d")
    case (Inl err)
    obtain st' where "log_call st (LogBlob d level (Some err) False) = Ret st'" "session_ready st'"
      using log_call_ready [OF assms] by blast
    with miss Inl show ?thesis by (simp add: doValidateBlobContents_def)
  next
    case (Inr body)
    show ?thesis
    proof (cases "copyError env c d")
      case (Some err)
      with miss Inr blob_finish_ready [OF assms, of env c d level "Some err"]
      show ?thesis by (simp add: doValidateBlobContents_def)
    next
      case None
      show ?thesis
      proof (cases "hashDigest env d body = d")
        case False
        with miss Inr None
          blob_finish_ready [OF assms, of env c d level
            "Some (GenericError (''actual digest is '' @ hashDigest env d body))"]
        show ?thesis by (simp add: doValidateBlobContents_def)
      next
        case True
        obtain st1 where cs: "cache_store st (validationCacheKey c d) = Ret st1"
          and r1: "session_ready st1"
          using cache_store_ready [OF assms] by blast
        with miss Inr None True blob_finish_ready [OF r1, of env c d level None]
        show ?thesis by (simp add: doValidateBlobContents_def)
      qed
    qed
  qed
qed

lemma validateBlobRefs_ready:
  "session_ready st \<Longrightarrow>
     \<exists>r st'. validateBlobRefs env c ds level st = Ret (r, st') \<and> session_ready st'"
proof (induction ds arbitrary: st)
  case Nil
  then show ?case by simp
next
  case (Cons desc ds)
  from doValidateBlobContents_ready [OF Cons.prems] obtain r st1 where
    s: "doValidateBlobContents env c (d_Digest desc) level st = Ret (r, st1)" and r1: "session_ready st1"
    by blast
  show ?case
  proof (cases r)
    case None
    with s Cons.IH [OF r1] show ?thesis by simp
  next
    case (Some e)
    with s r1 show ?thesis by simp
  qed
qed


lemma manifest_fail_ready:
  assumes "session_ready st"
  shows "safe_result (Some (manifest_fail reference level b err st))"
proof (cases b)
  case True
  with assms show ?thesis by (simp add: manifest_fail_def)
next
  case False
  obtain st' where "log_call st (LogManifest reference level (Some err) False) = Ret st'"
    "session_ready st'"
    using log_call_ready [OF assms] by blast
  with False show ?thesis by (simp add: manifest_fail_def)
qed

lemma validateManifestRefs_ready_step:
  assumes step: "\<And>reference level st. session_ready st \<Longrightarrow>
                   safe_result (doValidateManifest n env c reference level pf st)"
  shows "session_ready st \<Longrightarrow> safe_result (validateManifestRefs n env c ds level pf st)"
proof (induction ds arbitrary: st)
  case Nil
  then show ?case by simp
next
  case (Cons desc ds)
  let ?r = "doValidateManifest n env c \<lparr>ref_Digest = d_Digest desc, ref_Tag = []\<rparr> level pf st"
  have sr: "safe_result ?r" using step [OF Cons.prems] .
  show ?case
  proof (cases ?r)
    case None
    then show ?thesis by simp
  next
    case (Some out)
    show ?thesis
    proof (cases out)
      case (Panic p)
      with Some sr show ?thesis by simp
    next
      case (Ret pr)
      obtain r st1 where pr: "pr = (r, st1)" by (cases pr)
      with Some Ret sr have r1: "session_ready st1" by simp
      show ?thesis
      proof (cases r)
        case None
        with Some Ret pr Cons.IH [OF r1] show ?thesis by simp
      next
        case (Some e)
        with \<open>?r = Some out\<close> Ret pr r1 show ?thesis by simp
      qed
    qed
  qed
qed

lemma doValidateManifest_ready:
  "session_ready st \<Longrightarrow> safe_result (doValidateManifest n env c reference level pf st)"
proof (induction n arbitrary: st reference level)
  case 0
  then show ?case by simp
next
  case (Suc n)
  note ready = Suc.prems
  let ?key = "validationCacheKey c (ManifestReference_String reference)"
  show ?case
  proof (cases "cache_lookup (session st) ?key")
    case True
    obtain st' where "log_call st (LogManifest reference level None True) = Ret st'"
      "session_ready st'"
      using log_call_ready [OF ready] by blast
    with True show ?thesis by simp
  next
    case miss: False
    show ?thesis
    proof (cases "DownloadManifest env c reference")
      case (Inl err)
      with miss manifest_fail_ready [OF ready, of reference level False err]
      show ?thesis by simp
    next
      case (Inr dl)
      obtain manifestBytes manifestMediaType where dl: "dl = (manifestBytes, manifestMediaType)"
        by (cases dl)
      show ?thesis
      proof (cases "ParseManifest env manifestMediaType manifestBytes")
        case (Inl err)
        with miss Inr dl manifest_fail_ready [OF ready, of reference level False err]
        show ?thesis by simp
      next
        case parsed: (Inr pm)
        obtain manifest manifestDesc where pm: "pm = (manifest, manifestDesc)" by (cases pm)
        obtain st1 where l1: "log_call st
            (LogManifest \<lparr>ref_Digest = d_Digest manifestDesc, ref_Tag = []\<rparr> level None False)
              = Ret st1" and r1: "session_ready st1"
          using log_call_ready [OF ready] by blast
        obtain rb st2 where
          vb: "validateBlobRefs env c (BlobReferences manifest) (level + 1) st1 = Ret (rb, st2)"
          and r2: "session_ready st2"
          using validateBlobRefs_ready [OF r1] by blast
        show ?thesis
        proof (cases rb)
          case (Some e)
          with miss Inr dl parsed pm l1 vb r2 show ?thesis by simp
        next
          case None
          let ?m = "validateManifestRefs n env c (ManifestReferences manifest pf) (level + 1) pf st2"
          have sm: "safe_result ?m"
            using validateManifestRefs_ready_step [of n env c pf st2] Suc.IH r2 by blast
          show ?thesis
          proof (cases ?m)
            case nofuel: None
            with miss Inr dl parsed pm l1 vb \<open>rb = None\<close> show ?thesis by simp
          next
            case (Some out)
            show ?thesis
            proof (cases out)
              case (Panic p)
              with Some sm show ?thesis by simp
            next
              case (Ret pr)
              obtain rm st3 where pr: "pr = (rm, st3)" by (cases pr)
              with Some Ret sm have r3: "session_ready st3" by simp
              show ?thesis
              proof (cases rm)
                case (Some e)
                with miss Inr dl parsed pm l1 vb \<open>rb = None\<close> \<open>?m = Some out\<close> Ret pr r3
                show ?thesis by simp
              next
                case None
                obtain st4 where c4: "cache_store st3 (validationCacheKey c (d_Digest manifestDesc)) = Ret st4"
                  and r4: "session_ready st4"
                  using cache_store_ready [OF r3] by blast
                obtain st5 where c5: "cache_store st4 ?key = Ret st5" and r5: "session_ready st5"
                  using cache_store_ready [OF r4] by blast
                from miss Inr dl parsed pm l1 vb \<open>rb = None\<close> \<open>?m = Some out\<close> Ret pr None c4 c5 r5
                show ?thesis by simp
              qed
            qed
          qed
        qed
      qed
    qed
  qed
qed

lemma applyDefaults_ready: "session_ready \<lparr>session = applyDefaults sp, logged = []\<rparr>"
  by (simp add: applyDefaults_def session_ready_def Let_def split: option.splits)

text \<open>
  C10. Passing a nil session to \<^verbatim>\<open>ValidateManifest\<close> or \<^verbatim>\<open>ValidateBlobContents\<close> is
  safe and is the same as passing a fresh empty session: \<^verbatim>\<open>applyDefaults\<close> on the nil
  pointer gives a session with the no-op logger and an empty validity cache, both
  entry points return exactly what they return for \<^verbatim>\<open>&ValidationSession{}\<close>, and neither
  ever panics on nil state.
\<close>

theorem nil_session_is_safe:
  "applyDefaults None = \<lparr>Logger = Some noopLogger, isValid = Some Map.empty\<rparr>
   \<and> ValidateManifest fuel env c reference None platformFilter
       = ValidateManifest fuel env c reference (Some \<lparr>Logger = None, isValid = None\<rparr>) platformFilter
   \<and> ValidateBlobContents env c blobDigest None
       = ValidateBlobContents env c blobDigest (Some \<lparr>Logger = None, isValid = None\<rparr>)
   \<and> (\<forall>p. ValidateManifest fuel env c reference None platformFilter \<noteq> Some (Panic p))
   \<and> (\<forall>p. ValidateBlobContents env c blobDigest None \<noteq> Panic p)"
proof -
  have a: "applyDefaults None = \<lparr>Logger = Some noopLogger, isValid = Some Map.empty\<rparr>"
    by (simp add: applyDefaults_def)
  have b: "applyDefaults None = applyDefaults (Some \<lparr>Logger = None, isValid = None\<rparr>)"
    by (simp add: applyDefaults_def)
  have m: "safe_result (ValidateManifest fuel env c reference None platformFilter)"
    unfolding ValidateManifest_def using doValidateManifest_ready [OF applyDefaults_ready] .
  have bl: "\<exists>r st'. ValidateBlobContents env c blobDigest None = Ret (r, st')"
    unfolding ValidateBlobContents_def
    using doValidateBlobContents_ready [OF applyDefaults_ready] by blast
  from m have m': "\<forall>p. ValidateManifest fuel env c reference None platformFilter \<noteq> Some (Panic p)"
    by auto
  from bl have bl': "\<forall>p. ValidateBlobContents env c blobDigest None \<noteq> Panic p" by auto
  show ?thesis using a b m' bl' by (simp add: ValidateManifest_def ValidateBlobContents_def)
qed

section \<open>Properties of the manifest ingest\<close>

lemma insideTransaction_aborts:
  "tx_err (insideTransaction action d sd) \<noteq> None \<Longrightarrow> tx_db (insideTransaction action d sd) = d"
  by (auto simp: insideTransaction_def Let_def)

lemma insideTransaction_err:
  "tx_err (insideTransaction action d sd) = tx_err (action d sd)"
  by (simp add: insideTransaction_def Let_def)

lemma insideTransaction_storage:
  "tx_storage (insideTransaction action d sd) = tx_storage (action d sd)"
  by (simp add: insideTransaction_def Let_def)

lemma insideTransaction_dbManifest:
  "tx_dbManifest (insideTransaction action d sd) = tx_dbManifest (action d sd)"
  by (simp add: insideTransaction_def Let_def)

lemma insideTransaction_commits:
  "tx_err (action d sd) = None \<Longrightarrow> insideTransaction action d sd = action d sd"
  by (simp add: insideTransaction_def Let_def)

lemma FindOrCreateRepository_rows:
  assumes "FindOrCreateRepository env d name account = Inr (repo, d1)"
  shows "manifests d1 = manifests d" and "tags d1 = tags d" and "blobs d1 = blobs d"
    and "blob_mounts d1 = blob_mounts d"
  using assms
  by (auto simp: FindOrCreateRepository_def Let_def split: option.splits)

lemma store_storage_on_error:
  "tx_err (storeManifestInTransaction env account m repo manifest manifestDesc tx sd) \<noteq> None
     \<Longrightarrow> tx_storage (storeManifestInTransaction env account m repo manifest manifestDesc tx sd) = sd"
  by (simp add: storeManifestInTransaction_def Let_def split: option.splits sum.splits if_splits)

lemma store_fails_when_write_fails:
  assumes "WriteManifestFault env account (r_Name repo) (d_Digest manifestDesc) (im_Contents m)
             \<noteq> None"
  shows "tx_err (storeManifestInTransaction env account m repo manifest manifestDesc tx sd) \<noteq> None"
  using assms
  by (auto simp: storeManifestInTransaction_def Let_def split: option.splits sum.splits)

lemma failed_simps:
  "tx_err (failed err d sd) = Some err" "tx_db (failed err d sd) = d"
  "tx_storage (failed err d sd) = sd" "tx_dbManifest (failed err d sd) = None"
  by (simp_all add: failed_def)

text \<open>Whatever makes the call fail, no manifest row and no tag row of it is committed.\<close>

lemma ValidateAndStoreManifest_error_rows:
  assumes "tx_err (ValidateAndStoreManifest env d sd account m) \<noteq> None"
  shows "manifests (tx_db (ValidateAndStoreManifest env d sd account m)) = manifests d
       \<and> tags (tx_db (ValidateAndStoreManifest env d sd account m)) = tags d
       \<and> tx_storage (ValidateAndStoreManifest env d sd account m) = sd"
proof (cases "checkQuotaForManifestPush env d account")
  case (Some err)
  then show ?thesis by (simp add: ValidateAndStoreManifest_def failed_simps)
next
  case quota: None
  show ?thesis
  proof (cases "FindOrCreateRepository env d (im_RepoName m) account")
    case (Inl err)
    with quota show ?thesis by (simp add: ValidateAndStoreManifest_def failed_simps)
  next
    case (Inr pr)
    obtain repo d1 where pr: "pr = (repo, d1)" by (cases pr)
    note rows = FindOrCreateRepository_rows [OF Inr [unfolded pr]]
    show ?thesis
    proof (cases "UnmarshalManifest env (im_MediaType m) (im_Contents m)")
      case (Inl msg)
      with quota Inr pr rows show ?thesis
        by (simp add: ValidateAndStoreManifest_def failed_simps)
    next
      case parsed: (Inr pm)
      obtain manifest manifestDesc where pm: "pm = (manifest, manifestDesc)" by (cases pm)
      show ?thesis
      proof (cases "IsDigest (im_Reference m)
                      \<and> d_Digest manifestDesc \<noteq> ref_Digest (im_Reference m)")
        case True
        with quota Inr pr parsed pm rows show ?thesis
          by (simp add: ValidateAndStoreManifest_def failed_simps)
      next
        case False
        let ?body = "storeManifestInTransaction env account m repo manifest manifestDesc"
        from quota Inr pr parsed pm False
        have eq: "ValidateAndStoreManifest env d sd account m = insideTransaction ?body d1 sd"
          by (auto simp: ValidateAndStoreManifest_def)
        with assms have e: "tx_err (insideTransaction ?body d1 sd) \<noteq> None" by simp
        then have "tx_err (?body d1 sd) \<noteq> None" by (simp add: insideTransaction_err)
        then have "tx_storage (?body d1 sd) = sd" by (rule store_storage_on_error)
        with insideTransaction_aborts [OF e] rows eq show ?thesis
          by (simp add: insideTransaction_storage)
      qed
    qed
  qed
qed

lemma ValidateAndStoreManifest_fails_when_write_fails:
  assumes "\<And>repoName dg. WriteManifestFault env account repoName dg (im_Contents m) \<noteq> None"
  shows "tx_err (ValidateAndStoreManifest env d sd account m) \<noteq> None"
  using assms store_fails_when_write_fails [of env account _ _ m]
  by (simp add: ValidateAndStoreManifest_def failed_simps insideTransaction_err
           split: option.splits sum.splits prod.splits)

lemma fold_sizes:
  "fold (\<lambda>desc sizeBytes. sizeBytes + d_Size desc) descs (a :: 64 word)
     = a + sum_list (map d_Size descs)"
  by (induction descs arbitrary: a) (simp_all add: add.assoc)

lemma sum_sizes_of_int:
  "sum_list (map d_Size descs) = (word_of_int (\<Sum>desc\<leftarrow>descs. sint (d_Size desc)) :: 64 word)"
  by (induction descs) simp_all

lemma totalSizeBytes_mod:
  assumes "d_Size manifestDesc = word_of_nat n"
  shows "uint (totalSizeBytes manifestDesc manifest)
           = (int n + (\<Sum>desc\<leftarrow>pm_References manifest. sint (d_Size desc))) mod 2 ^ 64"
proof -
  let ?k = "int n + (\<Sum>desc\<leftarrow>pm_References manifest. sint (d_Size desc))"
  have e: "totalSizeBytes manifestDesc manifest = word_of_int ?k"
    by (simp add: totalSizeBytes_def fold_sizes assms sum_sizes_of_int [symmetric])
  have u: "uint (word_of_int k :: 64 word) = k mod 2 ^ 64" for k
    by (simp add: uint_word_of_int)
  show ?thesis by (simp only: e u)
qed

lemma Manifest_InsertIfMissing_row:
  assumes "Manifest_InsertIfMissing env tx row = Inr tx1"
  shows "list_ex (\<lambda>x. m_RepositoryID x = m_RepositoryID row \<and> m_Digest x = m_Digest row)
           (manifests tx1)"
    and "row \<in> set (manifests tx1)
         \<or> list_ex (\<lambda>x. m_RepositoryID x = m_RepositoryID row \<and> m_Digest x = m_Digest row)
              (manifests tx)"
  using assms
  by (auto simp: Manifest_InsertIfMissing_def list_ex_iff split: option.splits if_splits)

lemma Tag_InsertIfMissing_manifests:
  "Tag_InsertIfMissing env tx row = Inr tx1 \<Longrightarrow> manifests tx1 = manifests tx"
  by (auto simp: Tag_InsertIfMissing_def split: option.splits if_splits)

lemma store_success:
  assumes "tx_err (storeManifestInTransaction env account m repo manifest manifestDesc tx sd) = None"
  shows "\<exists>row. tx_dbManifest (storeManifestInTransaction env account m repo manifest manifestDesc tx sd)
                  = Some row
           \<and> m_SizeBytes row = totalSizeBytes manifestDesc manifest
           \<and> m_RepositoryID row = r_ID repo \<and> m_Digest row = d_Digest manifestDesc
           \<and> (row \<in> set (manifests (tx_db
                  (storeManifestInTransaction env account m repo manifest manifestDesc tx sd)))
               \<or> list_ex (\<lambda>x. m_RepositoryID x = r_ID repo \<and> m_Digest x = d_Digest manifestDesc)
                    (manifests tx))"
proof -
  let ?row = "\<lparr>m_RepositoryID = r_ID repo, m_Digest = d_Digest manifestDesc,
               m_MediaType = d_MediaType manifestDesc,
               m_SizeBytes = totalSizeBytes manifestDesc manifest,
               m_PushedAt = im_PushedAt m, m_ValidatedAt = im_PushedAt m,
               m_ValidationErrorMessage = [], m_NextVulnerabilityCheckAt = None,
               m_VulnerabilityStatus = []\<rparr>"
  let ?r = "storeManifestInTransaction env account m repo manifest manifestDesc tx sd"
  from assms obtain tx1 where ins: "Manifest_InsertIfMissing env tx ?row = Inr tx1"
    by (auto simp: storeManifestInTransaction_def Let_def split: option.splits sum.splits if_splits)
  from assms ins have man: "manifests (tx_db ?r) = manifests tx1"
    by (auto simp: storeManifestInTransaction_def Let_def Tag_InsertIfMissing_manifests
             split: option.splits sum.splits if_splits)
  from assms ins have dbm: "tx_dbManifest ?r = Some ?row"
    by (auto simp: storeManifestInTransaction_def Let_def split: option.splits sum.splits if_splits)
  from Manifest_InsertIfMissing_row(2) [OF ins] man dbm show ?thesis by auto
qed

lemmas ex_defs =
  ex_account_def ex_replica_def ex_config_def ex_layer_def ex_missing_layer_def
  ex_huge_layer_def ex_blob_def ex_empty_db_def ex_db_def ex_env_def ex_push_def ex_tag_def
  ex_wrong_digest_def

lemmas ingest_defs =
  ValidateAndStoreManifest_def FindOrCreateRepository_def next_repo_id_def
  insideTransaction_def storeManifestInTransaction_def validatePrimaryPush_def
  FindBlobByRepositoryID_def Manifest_InsertIfMissing_def Tag_InsertIfMissing_def
  totalSizeBytes_def failed_def IsDigest_def IsTag_def With_def WithDetail_def Let_def

text \<open>
  C1. The write to the storage driver is the last step of the one transaction of
  \<^verbatim>\<open>ValidateAndStoreManifest\<close>: whenever that write fails, the call fails, the
  transaction is aborted and neither a manifest row nor a tag row of the call is
  committed (and nothing was written to the storage).
\<close>

theorem storage_write_failure_aborts_transaction:
  assumes "\<And>repoName dg. WriteManifestFault env account repoName dg (im_Contents m) \<noteq> None"
  shows "tx_err (ValidateAndStoreManifest env d sd account m) \<noteq> None
       \<and> manifests (tx_db (ValidateAndStoreManifest env d sd account m)) = manifests d
       \<and> tags (tx_db (ValidateAndStoreManifest env d sd account m)) = tags d
       \<and> tx_storage (ValidateAndStoreManifest env d sd account m) = sd"
proof -
  have "tx_err (ValidateAndStoreManifest env d sd account m) \<noteq> None"
    using assms by (rule ValidateAndStoreManifest_fails_when_write_fails)
  then show ?thesis
    using ValidateAndStoreManifest_error_rows [of env d sd account m] by simp
qed

theorem storage_write_failure_aborts_transaction_witness:
  "(\<forall>repoName dg. WriteManifestFault (ex_env [ex_config, ex_layer] (Some (GenericError ''disk full'')))
       ex_account repoName dg (im_Contents (ex_push ex_tag)) \<noteq> None)
   \<and> tx_err (ValidateAndStoreManifest (ex_env [ex_config, ex_layer] (Some (GenericError ''disk full'')))
        ex_db Map.empty ex_account (ex_push ex_tag)) = Some (GenericError ''disk full'')
   \<and> manifests (tx_db (ValidateAndStoreManifest
        (ex_env [ex_config, ex_layer] (Some (GenericError ''disk full'')))
        ex_db Map.empty ex_account (ex_push ex_tag))) = []
   \<and> tags (tx_db (ValidateAndStoreManifest
        (ex_env [ex_config, ex_layer] (Some (GenericError ''disk full'')))
        ex_db Map.empty ex_account (ex_push ex_tag))) = []"
proof -
  let ?env = "ex_env [ex_config, ex_layer] (Some (GenericError ''disk full''))"
  have h: "\<And>repoName dg. WriteManifestFault ?env ex_account repoName dg
             (im_Contents (ex_push ex_tag)) \<noteq> None"
    by (simp add: ex_env_def)
  have e: "tx_err (ValidateAndStoreManifest ?env ex_db Map.empty ex_account (ex_push ex_tag))
             = Some (GenericError ''disk full'')"
    by (simp add: ingest_defs ex_defs)
  have m: "manifests ex_db = []" and t: "tags ex_db = []" by (simp_all add: ex_defs)
  from storage_write_failure_aborts_transaction [of ?env ex_account "ex_push ex_tag" ex_db Map.empty, OF h]
    h e m t show ?thesis by simp
qed

text \<open>
  C3, as stated: the size of a stored manifest is the length of its contents plus the
  sum of the declared sizes of its references. It fails where the 64-bit sum wraps
  around: two bytes of contents and two references that each declare the size
  \<open>2\<^sup>6\<^sup>3 - 1\<close> are stored with the size 0.
\<close>

theorem size_bytes_counterexample:
  "tx_err (ValidateAndStoreManifest (ex_env [ex_huge_layer, ex_huge_layer] None)
      ex_db Map.empty ex_account (ex_push ex_tag)) = None
   \<and> map m_SizeBytes (manifests (tx_db (ValidateAndStoreManifest
        (ex_env [ex_huge_layer, ex_huge_layer] None) ex_db Map.empty ex_account (ex_push ex_tag))))
       = [0]
   \<and> int (length (im_Contents (ex_push ex_tag)))
        + sint (d_Size ex_huge_layer) + sint (d_Size ex_huge_layer) = 18446744073709551616"
  by (simp add: ingest_defs ex_defs)

text \<open>
  C3, amended: for every successfully stored manifest whose descriptor carries the
  length of the contents as its size, the size of the manifest row that the call builds
  (and inserts, unless the row is there already) is the length of the contents plus
  the sum of the declared sizes of the references, modulo \<open>2\<^sup>6\<^sup>4\<close>; it is that sum
  itself whenever the sum lies between 0 and \<open>2\<^sup>6\<^sup>4 - 1\<close>.
\<close>

theorem size_bytes_is_sum_modulo_word:
  assumes ok: "tx_err (ValidateAndStoreManifest env d sd account m) = None"
    and parse: "UnmarshalManifest env (im_MediaType m) (im_Contents m) = Inr (manifest, manifestDesc)"
    and len: "d_Size manifestDesc = word_of_nat (length (im_Contents m))"
  shows "\<exists>row. tx_dbManifest (ValidateAndStoreManifest env d sd account m) = Some row
           \<and> (row \<in> set (manifests (tx_db (ValidateAndStoreManifest env d sd account m)))
               \<or> list_ex (\<lambda>x. m_RepositoryID x = m_RepositoryID row \<and> m_Digest x = m_Digest row)
                    (manifests d))
           \<and> uint (m_SizeBytes row)
               = (int (length (im_Contents m))
                    + (\<Sum>desc\<leftarrow>pm_References manifest. sint (d_Size desc))) mod 2 ^ 64
           \<and> (0 \<le> int (length (im_Contents m))
                    + (\<Sum>desc\<leftarrow>pm_References manifest. sint (d_Size desc))
              \<and> int (length (im_Contents m))
                    + (\<Sum>desc\<leftarrow>pm_References manifest. sint (d_Size desc)) < 2 ^ 64
              \<longrightarrow> uint (m_SizeBytes row)
                    = int (length (im_Contents m))
                        + (\<Sum>desc\<leftarrow>pm_References manifest. sint (d_Size desc)))"
proof -
  let ?r = "ValidateAndStoreManifest env d sd account m"
  from ok have quota: "checkQuotaForManifestPush env d account = None"
    by (auto simp: ValidateAndStoreManifest_def failed_simps split: option.splits)
  from ok quota obtain repo d1 where
    repo: "FindOrCreateRepository env d (im_RepoName m) account = Inr (repo, d1)"
    by (cases "FindOrCreateRepository env d (im_RepoName m) account")
       (auto simp: ValidateAndStoreManifest_def failed_simps)
  let ?body = "storeManifestInTransaction env account m repo manifest manifestDesc"
  from ok quota repo parse have eq: "?r = insideTransaction ?body d1 sd"
    by (auto simp: ValidateAndStoreManifest_def failed_simps split: if_splits)
  with ok have bok: "tx_err (?body d1 sd) = None" by (simp add: insideTransaction_err)
  then have eq': "?r = ?body d1 sd" using eq by (simp add: insideTransaction_commits)
  from store_success [OF bok] obtain row where
    row: "tx_dbManifest (?body d1 sd) = Some row"
    and sz: "m_SizeBytes row = totalSizeBytes manifestDesc manifest"
    and key: "m_RepositoryID row = r_ID repo" "m_Digest row = d_Digest manifestDesc"
    and ins: "row \<in> set (manifests (tx_db (?body d1 sd)))
              \<or> list_ex (\<lambda>x. m_RepositoryID x = r_ID repo \<and> m_Digest x = d_Digest manifestDesc)
                   (manifests d1)"
    by blast
  have modsum: "uint (m_SizeBytes row)
      = (int (length (im_Contents m))
           + (\<Sum>desc\<leftarrow>pm_References manifest. sint (d_Size desc))) mod 2 ^ 64"
    unfolding sz using len by (rule totalSizeBytes_mod)
  have there: "row \<in> set (manifests (tx_db ?r))
      \<or> list_ex (\<lambda>x. m_RepositoryID x = m_RepositoryID row \<and> m_Digest x = m_Digest row)
           (manifests d)"
    using ins key FindOrCreateRepository_rows(1) [OF repo] eq' by simp
  have exact: "0 \<le> int (length (im_Contents m))
                    + (\<Sum>desc\<leftarrow>pm_References manifest. sint (d_Size desc))
       \<and> int (length (im_Contents m))
            + (\<Sum>desc\<leftarrow>pm_References manifest. sint (d_Size desc)) < 2 ^ 64
       \<longrightarrow> uint (m_SizeBytes row)
             = int (length (im_Contents m))
                 + (\<Sum>desc\<leftarrow>pm_References manifest. sint (d_Size desc))"
    unfolding modsum by simp
  from row eq' there modsum exact show ?thesis by auto
qed

theorem size_bytes_is_sum_modulo_word_witness:
  "tx_err (ValidateAndStoreManifest (ex_env [ex_config, ex_layer] None)
      ex_db Map.empty ex_account (ex_push ex_tag)) = None
   \<and> UnmarshalManifest (ex_env [ex_config, ex_layer] None) (im_MediaType (ex_push ex_tag))
        (im_Contents (ex_push ex_tag))
       = Inr (\<lparr>pm_kind = Schema2Manifest, pm_Config = ex_config,
                pm_References = [ex_config, ex_layer]\<rparr>,
              \<lparr>d_MediaType = im_MediaType (ex_push ex_tag), d_Size = 2, d_Digest = ''sha256:8a92''\<rparr>)
   \<and> (\<exists>row. tx_dbManifest (ValidateAndStoreManifest (ex_env [ex_config, ex_layer] None)
                ex_db Map.empty ex_account (ex_push ex_tag)) = Some row
          \<and> uint (m_SizeBytes row) = 2 + (1102 + 1048576))"
proof -
  let ?env = "ex_env [ex_config, ex_layer] None"
  let ?manifest = "\<lparr>pm_kind = Schema2Manifest, pm_Config = ex_config,
                    pm_References = [ex_config, ex_layer]\<rparr>"
  let ?desc = "\<lparr>d_MediaType = im_MediaType (ex_push ex_tag), d_Size = 2,
                d_Digest = ''sha256:8a92''\<rparr>"
  have ok: "tx_err (ValidateAndStoreManifest ?env ex_db Map.empty ex_account (ex_push ex_tag)) = None"
    by (simp add: ingest_defs ex_defs)
  have parse: "UnmarshalManifest ?env (im_MediaType (ex_push ex_tag)) (im_Contents (ex_push ex_tag))
                 = Inr (?manifest, ?desc)"
    by (simp add: ex_defs)
  have len: "d_Size ?desc = word_of_nat (length (im_Contents (ex_push ex_tag)))"
    by (simp add: ex_defs)
  have s: "(\<Sum>desc\<leftarrow>pm_References ?manifest. sint (d_Size desc)) = 1102 + 1048576"
    by (simp add: ex_defs)
  have l: "int (length (im_Contents (ex_push ex_tag))) = 2" by (simp add: ex_defs)
  from size_bytes_is_sum_modulo_word [OF ok parse len] ok parse s l show ?thesis
    by auto
qed

text \<open>
  C4, as stated: on a digest mismatch no database entries are created. The repository
  row is found or created before the manifest is parsed and compared, outside of the
  transaction: a push into a new repository that fails with \<^verbatim>\<open>DIGEST_INVALID\<close> leaves
  the new repository row behind.
\<close>

theorem digest_mismatch_counterexample:
  "tx_err (ValidateAndStoreManifest (ex_env [ex_config, ex_layer] None)
        ex_empty_db Map.empty ex_account (ex_push ex_wrong_digest))
     = Some (RegistryError
         \<lparr>Code = ErrDigestInvalid,
          Message = ''provided digest did not match uploaded content'',
          Detail = Some ''actual manifest digest is sha256:8a92''\<rparr>)
   \<and> repos ex_empty_db = []
   \<and> repos (tx_db (ValidateAndStoreManifest (ex_env [ex_config, ex_layer] None)
        ex_empty_db Map.empty ex_account (ex_push ex_wrong_digest)))
       = [\<lparr>r_ID = 1, r_AccountName = ''test1'', r_Name = ''foo'', r_NextManifestSyncAt = None\<rparr>]"
  by (simp add: ingest_defs ex_defs)

text \<open>
  C4, amended: for every ingest call that passes the quota check, finds or creates its
  repository and parses, if the reference is a digest that differs from the digest
  computed from the uploaded contents, the call fails with \<^verbatim>\<open>DIGEST_INVALID\<close> (the
  detail names the computed digest); no manifest or tag row is created and nothing is
  written to the storage. The database is left as the find-or-create of the
  repository left it.
\<close>

theorem digest_mismatch_is_rejected:
  assumes quota: "checkQuotaForManifestPush env d account = None"
    and repo: "FindOrCreateRepository env d (im_RepoName m) account = Inr (repo, d1)"
    and parse: "UnmarshalManifest env (im_MediaType m) (im_Contents m) = Inr (manifest, manifestDesc)"
    and isdig: "IsDigest (im_Reference m)"
    and differs: "d_Digest manifestDesc \<noteq> ref_Digest (im_Reference m)"
  shows "tx_err (ValidateAndStoreManifest env d sd account m)
           = Some (RegistryError
               \<lparr>Code = ErrDigestInvalid,
                Message = ''provided digest did not match uploaded content'',
                Detail = Some (''actual manifest digest is '' @ d_Digest manifestDesc)\<rparr>)
       \<and> tx_dbManifest (ValidateAndStoreManifest env d sd account m) = None
       \<and> tx_db (ValidateAndStoreManifest env d sd account m) = d1
       \<and> manifests (tx_db (ValidateAndStoreManifest env d sd account m)) = manifests d
       \<and> tags (tx_db (ValidateAndStoreManifest env d sd account m)) = tags d
       \<and> blobs (tx_db (ValidateAndStoreManifest env d sd account m)) = blobs d
       \<and> tx_storage (ValidateAndStoreManifest env d sd account m) = sd"
  using quota repo parse isdig differs FindOrCreateRepository_rows [OF repo]
  by (simp add: ValidateAndStoreManifest_def failed_simps With_def)

theorem digest_mismatch_is_rejected_witness:
  "checkQuotaForManifestPush (ex_env [ex_config, ex_layer] None) ex_db ex_account = None
   \<and> FindOrCreateRepository (ex_env [ex_config, ex_layer] None) ex_db
        (im_RepoName (ex_push ex_wrong_digest)) ex_account
       = Inr (\<lparr>r_ID = 1, r_AccountName = ''test1'', r_Name = ''foo'', r_NextManifestSyncAt = None\<rparr>,
              ex_db)
   \<and> IsDigest (im_Reference (ex_push ex_wrong_digest))
   \<and> ''sha256:8a92'' \<noteq> ref_Digest (im_Reference (ex_push ex_wrong_digest))
   \<and> tx_err (ValidateAndStoreManifest (ex_env [ex_config, ex_layer] None) ex_db Map.empty
        ex_account (ex_push ex_wrong_digest))
       = Some (RegistryError
           \<lparr>Code = ErrDigestInvalid,
            Message = ''provided digest did not match uploaded content'',
            Detail = Some ''actual manifest digest is sha256:8a92''\<rparr>)
   \<and> tx_db (ValidateAndStoreManifest (ex_env [ex_config, ex_layer] None) ex_db Map.empty
        ex_account (ex_push ex_wrong_digest)) = ex_db"
proof -
  let ?env = "ex_env [ex_config, ex_layer] None"
  let ?m = "ex_push ex_wrong_digest"
  let ?repo = "\<lparr>r_ID = 1, r_AccountName = ''test1'', r_Name = ''foo'',
                r_NextManifestSyncAt = None\<rparr>"
  let ?manifest = "\<lparr>pm_kind = Schema2Manifest, pm_Config = ex_config,
                    pm_References = [ex_config, ex_layer]\<rparr>"
  let ?desc = "\<lparr>d_MediaType = im_MediaType ?m, d_Size = 2, d_Digest = ''sha256:8a92''\<rparr>"
  have quota: "checkQuotaForManifestPush ?env ex_db ex_account = None"
    by (simp add: ex_defs)
  have repo: "FindOrCreateRepository ?env ex_db (im_RepoName ?m) ex_account = Inr (?repo, ex_db)"
    by (simp add: FindOrCreateRepository_def ex_defs)
  have parse: "UnmarshalManifest ?env (im_MediaType ?m) (im_Contents ?m) = Inr (?manifest, ?desc)"
    by (simp add: ex_defs)
  have isdig: "IsDigest (im_Reference ?m)" by (simp add: IsDigest_def ex_defs)
  have differs: "d_Digest ?desc \<noteq> ref_Digest (im_Reference ?m)" by (simp add: ex_defs)
  from digest_mismatch_is_rejected [OF quota repo parse isdig differs, of Map.empty]
    quota repo isdig differs
  show ?thesis by simp
qed

lemma checkReferencedBlobs_first_missing:
  assumes "\<forall>x \<in> set pre. \<exists>b. FindBlobByRepositoryID env tx (d_Digest x) repoID account = Inr b"
    and "FindBlobByRepositoryID env tx (d_Digest desc) repoID account = Inl SqlErrNoRows"
  shows "checkReferencedBlobs env tx repoID account (pre @ desc # post)
           = Some (RegistryError (WithDetail (With ErrManifestBlobUnknown []) (d_Digest desc)))"
  using assms by (induction pre) auto

lemma store_replica_succeeds:
  assumes "a_UpstreamPeerHostName account \<noteq> []"
    and "dbFault env OpInsertManifest = None" and "dbFault env OpInsertTag = None"
    and "WriteManifestFault env account (r_Name repo) (d_Digest manifestDesc) (im_Contents m) = None"
  shows "tx_err (storeManifestInTransaction env account m repo manifest manifestDesc tx sd) = None"
  using assms
  by (simp add: storeManifestInTransaction_def Manifest_InsertIfMissing_def
        Tag_InsertIfMissing_def Let_def)

text \<open>
  C2. For a push that gets as far as the transaction (the quota check passes, the
  repository is there, the manifest parses and a digest reference matches): into an
  account that is not a replica, the references are looked up in order among the blobs
  of the repository, and the first one without a blob row makes the call fail with
  \<^verbatim>\<open>MANIFEST_BLOB_UNKNOWN\<close> and that descriptor's digest as the detail, with no manifest
  row committed; into a replica account neither the blobs nor the required labels are
  looked at, so the push succeeds whenever the inserts and the storage write do.
\<close>

theorem unknown_blob_is_reported_unless_replica:
  assumes quota: "checkQuotaForManifestPush env d account = None"
    and repo: "FindOrCreateRepository env d (im_RepoName m) account = Inr (repo, d1)"
    and parse: "UnmarshalManifest env (im_MediaType m) (im_Contents m) = Inr (manifest, manifestDesc)"
    and dig: "IsDigest (im_Reference m) \<longrightarrow> d_Digest manifestDesc = ref_Digest (im_Reference m)"
  shows "(a_UpstreamPeerHostName account = []
            \<and> pm_References manifest = pre @ desc # post
            \<and> (\<forall>x \<in> set pre. \<exists>b. FindBlobByRepositoryID env d1 (d_Digest x) (r_ID repo) account
                                     = Inr b)
            \<and> FindBlobByRepositoryID env d1 (d_Digest desc) (r_ID repo) account = Inl SqlErrNoRows
          \<longrightarrow> tx_err (ValidateAndStoreManifest env d sd account m)
                = Some (RegistryError
                    \<lparr>Code = ErrManifestBlobUnknown,
                     Message = ''manifest blob unknown to registry'',
                     Detail = Some (d_Digest desc)\<rparr>)
              \<and> manifests (tx_db (ValidateAndStoreManifest env d sd account m)) = manifests d)
       \<and> (a_UpstreamPeerHostName account \<noteq> []
            \<and> dbFault env OpInsertManifest = None \<and> dbFault env OpInsertTag = None
            \<and> WriteManifestFault env account (r_Name repo) (d_Digest manifestDesc)
                 (im_Contents m) = None
          \<longrightarrow> tx_err (ValidateAndStoreManifest env d sd account m) = None)"
proof -
  let ?r = "ValidateAndStoreManifest env d sd account m"
  let ?body = "storeManifestInTransaction env account m repo manifest manifestDesc"
  from quota repo parse dig have eq: "?r = insideTransaction ?body d1 sd"
    by (auto simp: ValidateAndStoreManifest_def)
  have primary: "tx_err ?r = Some (RegistryError
        \<lparr>Code = ErrManifestBlobUnknown, Message = ''manifest blob unknown to registry'',
         Detail = Some (d_Digest desc)\<rparr>) \<and> manifests (tx_db ?r) = manifests d"
    if p: "a_UpstreamPeerHostName account = []"
      and refs: "pm_References manifest = pre @ desc # post"
      and found: "\<forall>x \<in> set pre. \<exists>b. FindBlobByRepositoryID env d1 (d_Digest x) (r_ID repo) account
                                        = Inr b"
      and missing: "FindBlobByRepositoryID env d1 (d_Digest desc) (r_ID repo) account
                      = Inl SqlErrNoRows"
  proof -
    have "checkReferencedBlobs env d1 (r_ID repo) account (pm_References manifest)
            = Some (RegistryError (WithDetail (With ErrManifestBlobUnknown []) (d_Digest desc)))"
      unfolding refs using found missing by (rule checkReferencedBlobs_first_missing)
    then have "tx_err (?body d1 sd) = Some (RegistryError
        \<lparr>Code = ErrManifestBlobUnknown, Message = ''manifest blob unknown to registry'',
         Detail = Some (d_Digest desc)\<rparr>)"
      using p by (simp add: storeManifestInTransaction_def validatePrimaryPush_def With_def
                     WithDetail_def)
    then have e: "tx_err ?r = Some (RegistryError
        \<lparr>Code = ErrManifestBlobUnknown, Message = ''manifest blob unknown to registry'',
         Detail = Some (d_Digest desc)\<rparr>)"
      using eq by (simp add: insideTransaction_err)
    then have "tx_err ?r \<noteq> None" by simp
    from ValidateAndStoreManifest_error_rows [OF this] e show ?thesis by simp
  qed
  have replica: "tx_err ?r = None"
    if "a_UpstreamPeerHostName account \<noteq> []"
      and "dbFault env OpInsertManifest = None" and "dbFault env OpInsertTag = None"
      and "WriteManifestFault env account (r_Name repo) (d_Digest manifestDesc) (im_Contents m)
             = None"
    using store_replica_succeeds [OF that] eq by (simp add: insideTransaction_err)
  from primary replica show ?thesis by blast
qed

theorem unknown_blob_is_reported_unless_replica_witness:
  "(checkQuotaForManifestPush (ex_env [ex_config, ex_missing_layer, ex_layer] None) ex_db ex_account
      = None
    \<and> a_UpstreamPeerHostName ex_account = []
    \<and> FindBlobByRepositoryID (ex_env [ex_config, ex_missing_layer, ex_layer] None) ex_db
         (d_Digest ex_missing_layer) 1 ex_account = Inl SqlErrNoRows
    \<and> tx_err (ValidateAndStoreManifest (ex_env [ex_config, ex_missing_layer, ex_layer] None)
         ex_db Map.empty ex_account (ex_push ex_tag))
        = Some (RegistryError
            \<lparr>Code = ErrManifestBlobUnknown, Message = ''manifest blob unknown to registry'',
             Detail = Some ''sha256:dead''\<rparr>))
   \<and> (a_UpstreamPeerHostName (ex_replica\<lparr>a_RequiredLabels := ''maintainer''\<rparr>) \<noteq> []
      \<and> blobs ex_empty_db = []
      \<and> tx_err (ValidateAndStoreManifest (ex_env [ex_config, ex_layer] None) ex_empty_db Map.empty
           (ex_replica\<lparr>a_RequiredLabels := ''maintainer''\<rparr>) (ex_push ex_tag)) = None)"
proof -
  let ?env = "ex_env [ex_config, ex_missing_layer, ex_layer] None"
  let ?m = "ex_push ex_tag"
  let ?repo = "\<lparr>r_ID = 1, r_AccountName = ''test1'', r_Name = ''foo'',
                r_NextManifestSyncAt = None\<rparr>"
  let ?manifest = "\<lparr>pm_kind = Schema2Manifest, pm_Config = ex_config,
                    pm_References = [ex_config, ex_missing_layer, ex_layer]\<rparr>"
  let ?desc = "\<lparr>d_MediaType = im_MediaType ?m, d_Size = 2, d_Digest = ''sha256:8a92''\<rparr>"
  have quota: "checkQuotaForManifestPush ?env ex_db ex_account = None"
    by (simp add: ex_defs)
  have repo: "FindOrCreateRepository ?env ex_db (im_RepoName ?m) ex_account = Inr (?repo, ex_db)"
    by (simp add: FindOrCreateRepository_def ex_defs)
  have parse: "UnmarshalManifest ?env (im_MediaType ?m) (im_Contents ?m) = Inr (?manifest, ?desc)"
    by (simp add: ex_defs)
  have dig: "IsDigest (im_Reference ?m) \<longrightarrow> d_Digest ?desc = ref_Digest (im_Reference ?m)"
    by (simp add: IsDigest_def ex_defs)
  have p: "a_UpstreamPeerHostName ex_account = []" by (simp add: ex_defs)
  have refs: "pm_References ?manifest = [ex_config] @ ex_missing_layer # [ex_layer]" by simp
  have found: "\<forall>x \<in> set [ex_config]. \<exists>b. FindBlobByRepositoryID ?env ex_db (d_Digest x)
                  (r_ID ?repo) ex_account = Inr b"
    by (simp add: FindBlobByRepositoryID_def ex_defs)
  have missing: "FindBlobByRepositoryID ?env ex_db (d_Digest ex_missing_layer) (r_ID ?repo)
                   ex_account = Inl SqlErrNoRows"
    by (simp add: FindBlobByRepositoryID_def ex_defs)
  have dead: "d_Digest ex_missing_layer = ''sha256:dead''" by (simp add: ex_defs)
  have first: "tx_err (ValidateAndStoreManifest ?env ex_db Map.empty ex_account ?m)
      = Some (RegistryError
          \<lparr>Code = ErrManifestBlobUnknown, Message = ''manifest blob unknown to registry'',
           Detail = Some ''sha256:dead''\<rparr>)"
    using unknown_blob_is_reported_unless_replica
            [OF quota repo parse dig, of "[ex_config]" ex_missing_layer "[ex_layer]" Map.empty]
          p refs found missing dead
    by simp
  let ?env2 = "ex_env [ex_config, ex_layer] None"
  let ?acc2 = "ex_replica\<lparr>a_RequiredLabels := ''maintainer''\<rparr>"
  let ?manifest2 = "\<lparr>pm_kind = Schema2Manifest, pm_Config = ex_config,
                     pm_References = [ex_config, ex_layer]\<rparr>"
  have quota2: "checkQuotaForManifestPush ?env2 ex_empty_db ?acc2 = None"
    by (simp add: ex_defs)
  have repo2: "FindOrCreateRepository ?env2 ex_empty_db (im_RepoName ?m) ?acc2
                 = Inr (?repo, ex_empty_db\<lparr>repos := [?repo]\<rparr>)"
    by (simp add: FindOrCreateRepository_def next_repo_id_def Let_def ex_defs)
  have parse2: "UnmarshalManifest ?env2 (im_MediaType ?m) (im_Contents ?m)
                  = Inr (?manifest2, ?desc)"
    by (simp add: ex_defs)
  have r: "a_UpstreamPeerHostName ?acc2 \<noteq> []" by (simp add: ex_defs)
  have nofault: "dbFault ?env2 OpInsertManifest = None" "dbFault ?env2 OpInsertTag = None"
    "WriteManifestFault ?env2 ?acc2 (r_Name ?repo) (d_Digest ?desc) (im_Contents ?m) = None"
    by (simp_all add: ex_defs)
  have second: "tx_err (ValidateAndStoreManifest ?env2 ex_empty_db Map.empty ?acc2 ?m) = None"
    using unknown_blob_is_reported_unless_replica
            [OF quota2 repo2 parse2 dig, of "[]" ex_config "[]" Map.empty]
          r nofault
    by simp
  have b: "blobs ex_empty_db = []" by (simp add: ex_defs)
  from quota p missing first r b second show ?thesis by simp
qed

section \<open>Properties of the manifest validation sweep\<close>

lemma comesBefore_irrefl: "\<not> comesBefore m m"
  by (simp add: comesBefore_def)

lemma comesBefore_asym: "comesBefore a b \<Longrightarrow> \<not> comesBefore b a"
  by (auto simp: comesBefore_def)

lemma comesBefore_between: "comesBefore x m \<Longrightarrow> comesBefore x b \<or> comesBefore b m"
  by (auto simp: comesBefore_def)

lemma firstInOrder_None: "firstInOrder ms = None \<longleftrightarrow> ms = []"
  by (cases ms) (auto split: option.splits)

lemma firstInOrder_Some:
  "firstInOrder ms = Some m \<Longrightarrow> m \<in> set ms \<and> (\<forall>x \<in> set ms. \<not> comesBefore x m)"
proof (induction ms arbitrary: m)
  case Nil
  then show ?case by simp
next
  case (Cons a ms)
  show ?case
  proof (cases "firstInOrder ms")
    case None
    then have "ms = []" by (simp add: firstInOrder_None)
    with Cons.prems show ?thesis by (simp add: comesBefore_irrefl)
  next
    case (Some b)
    note best = Cons.IH [OF Some]
    show ?thesis
    proof (cases "comesBefore b a")
      case True
      with Cons.prems Some have "m = b" by simp
      with best True show ?thesis by (auto dest: comesBefore_asym)
    next
      case False
      with Cons.prems Some have m: "m = a" by simp
      have "\<not> comesBefore x a" if "x \<in> set ms" for x
        using comesBefore_between [of x a b] best that False by blast
      with m show ?thesis by (auto simp: comesBefore_irrefl)
    qed
  qed
qed

lemma query_selects:
  assumes "outdatedManifestSearchQuery d t1 t2 = Some m"
  shows "m \<in> set (manifests d)" and "needsValidation t1 t2 m"
    and "\<And>x. x \<in> set (manifests d) \<Longrightarrow> needsValidation t1 t2 x \<Longrightarrow> \<not> comesBefore x m"
  using firstInOrder_Some [OF assms [unfolded outdatedManifestSearchQuery_def]] by auto

lemma query_idle:
  "outdatedManifestSearchQuery d t1 t2 = None
     \<longleftrightarrow> (\<forall>m \<in> set (manifests d). \<not> needsValidation t1 t2 m)"
  by (simp add: outdatedManifestSearchQuery_def firstInOrder_None filter_empty_conv)

lemma updateValidation_other_rows:
  "filter (otherManifest repoID dg) (manifests (updateValidation d repoID dg t msg))
     = filter (otherManifest repoID dg) (manifests d)"
proof -
  have "filter (otherManifest repoID dg)
          (map (\<lambda>x. if m_RepositoryID x = repoID \<and> m_Digest x = dg
                    then x\<lparr>m_ValidatedAt := t, m_ValidationErrorMessage := msg\<rparr> else x) xs)
        = filter (otherManifest repoID dg) xs" for xs
    by (induction xs) (auto simp: otherManifest_def)
  then show ?thesis by (simp add: updateValidation_def)
qed

lemma updateValidation_keys:
  "map (\<lambda>x. (m_RepositoryID x, m_Digest x)) (manifests (updateValidation d repoID dg t msg))
     = map (\<lambda>x. (m_RepositoryID x, m_Digest x)) (manifests d)"
  by (simp add: updateValidation_def comp_def)

lemma updateValidation_row:
  assumes "x \<in> set (manifests (updateValidation d repoID dg t msg))"
    and "m_RepositoryID x = repoID" and "m_Digest x = dg"
  shows "m_ValidatedAt x = t \<and> m_ValidationErrorMessage x = msg"
proof -
  from assms(1) obtain y where y: "y \<in> set (manifests d)"
    and x: "x = (if m_RepositoryID y = repoID \<and> m_Digest y = dg
                 then y\<lparr>m_ValidatedAt := t, m_ValidationErrorMessage := msg\<rparr> else y)"
    unfolding updateValidation_def by auto
  show ?thesis
  proof (cases "m_RepositoryID y = repoID \<and> m_Digest y = dg")
    case True
    with x show ?thesis by simp
  next
    case False
    with x have "x = y" by simp
    with False assms(2,3) show ?thesis by simp
  qed
qed

lemma updateValidation_tables:
  "repos (updateValidation d repoID dg t msg) = repos d"
  "tags (updateValidation d repoID dg t msg) = tags d"
  "blobs (updateValidation d repoID dg t msg) = blobs d"
  by (simp_all add: updateValidation_def)

lemma SelectOne_Inr:
  "SelectOne fault row = Inr x \<longleftrightarrow> fault = None \<and> row = Some x"
  by (auto simp: SelectOne_def split: option.splits)

text \<open>What the sweep does to the rows of the manifests that it did not select.\<close>

lemma validateSelectedManifest_other_rows:
  assumes keep: "\<And>account repo t.
      manifests (snd (ValidateExistingManifest env d account repo m t)) = manifests d"
    and res: "validateSelectedManifest env d m = (e, d')"
  shows "filter (otherManifest (m_RepositoryID m) (m_Digest m)) (manifests d')
         = filter (otherManifest (m_RepositoryID m) (m_Digest m)) (manifests d)"
proof (cases "SelectOne (jdbFault env (OpSelectRepo (m_RepositoryID m)))
                (find (\<lambda>r. r_ID r = m_RepositoryID m) (repos d))")
  case (Inl err)
  with res show ?thesis by (simp add: validateSelectedManifest_def)
next
  case (Inr repo)
  then have "find (\<lambda>r. r_ID r = m_RepositoryID m) (repos d) = Some repo"
    by (simp add: SelectOne_Inr)
  then have rid: "r_ID repo = m_RepositoryID m" by (auto simp: find_Some_iff)
  show ?thesis
  proof (cases "FindAccount env d (r_AccountName repo)")
    case (Inl err)
    with Inr res show ?thesis by (simp add: validateSelectedManifest_def)
  next
    case acc: (Inr account)
    obtain verr d1 where
      v: "ValidateExistingManifest env d account repo m (timeNow env 2) = (verr, d1)"
      by (cases "ValidateExistingManifest env d account repo m (timeNow env 2)")
    with keep [of account repo "timeNow env 2"] have d1: "manifests d1 = manifests d" by simp
    have upd: "filter (otherManifest (m_RepositoryID m) (m_Digest m))
                 (manifests (updateValidation d1 (r_ID repo) (m_Digest m) t msg))
               = filter (otherManifest (m_RepositoryID m) (m_Digest m)) (manifests d)" for t msg
      unfolding rid updateValidation_other_rows d1 ..
    show ?thesis
    proof (cases "jdbFault env (OpUpdateValidation (m_Digest m))")
      case None
      with Inr acc v res have "d' = updateValidation d1 (r_ID repo) (m_Digest m) (timeNow env 3)
                                     (case verr of None \<Rightarrow> [] | Some err \<Rightarrow> error_Error err)"
        by (cases verr) (auto simp: validateSelectedManifest_def)
      then show ?thesis by (simp only: upd)
    next
      case (Some updateErr)
      with Inr acc v res have "d' = d1"
        by (cases verr) (auto simp: validateSelectedManifest_def)
      with d1 show ?thesis by simp
    qed
  qed
qed

lemmas janitor_ex_defs = ex_manifest_def ex_janitor_db_def ex_janitor_def

lemmas validation_defs =
  ValidateNextManifest_def validateSelectedManifest_def outdatedManifestSearchQuery_def
  needsValidation_def comesBefore_def SelectOne_def sweepResult_def updateValidation_def
  otherManifest_def Let_def

text \<open>
  C6. One call of the manifest validation sweep processes at most one manifest. When
  the query runs and no manifest was validated before now - 24 h, and none with a
  recorded error before now - 10 min, the call returns \<^verbatim>\<open>sql.ErrNoRows\<close> and leaves the
  database as it is. Otherwise it processes one such manifest: no other such manifest
  has a recorded error unless the chosen one has, and among those that agree with it
  on having a recorded error none has an older \<^verbatim>\<open>validated_at\<close>; the rows of all other
  manifests stay as they are (the processor does not write manifest rows when it
  revalidates).
\<close>

theorem validation_sweep_takes_one_manifest:
  assumes nofault: "jdbFault env OpSelectOutdatedManifest = None"
    and keep: "\<And>m account repo t.
      manifests (snd (ValidateExistingManifest env d account repo m t)) = manifests d"
  shows "((\<forall>m \<in> set (manifests d).
             \<not> needsValidation (timeNow env 0 - 24 * 3600) (timeNow env 1 - 10 * 60) m)
          \<longrightarrow> ValidateNextManifest env d = (Some SqlErrNoRows, d))
       \<and> ((\<exists>m \<in> set (manifests d).
             needsValidation (timeNow env 0 - 24 * 3600) (timeNow env 1 - 10 * 60) m)
          \<longrightarrow> (\<exists>m \<in> set (manifests d).
                 needsValidation (timeNow env 0 - 24 * 3600) (timeNow env 1 - 10 * 60) m
               \<and> (\<forall>x \<in> set (manifests d).
                     needsValidation (timeNow env 0 - 24 * 3600) (timeNow env 1 - 10 * 60) x
                     \<longrightarrow> (m_ValidationErrorMessage x \<noteq> [] \<longrightarrow> m_ValidationErrorMessage m \<noteq> [])
                        \<and> ((m_ValidationErrorMessage x \<noteq> []) = (m_ValidationErrorMessage m \<noteq> [])
                             \<longrightarrow> m_ValidatedAt m \<le> m_ValidatedAt x))
               \<and> snd (ValidateNextManifest env d) = snd (validateSelectedManifest env d m)
               \<and> filter (otherManifest (m_RepositoryID m) (m_Digest m))
                      (manifests (snd (ValidateNextManifest env d)))
                   = filter (otherManifest (m_RepositoryID m) (m_Digest m)) (manifests d)))"
proof -
  let ?t1 = "timeNow env 0 - 24 * 3600" and ?t2 = "timeNow env 1 - 10 * 60"
  have idle: "ValidateNextManifest env d = (Some SqlErrNoRows, d)"
    if "\<forall>m \<in> set (manifests d). \<not> needsValidation ?t1 ?t2 m"
  proof -
    from that have "outdatedManifestSearchQuery d ?t1 ?t2 = None" by (simp add: query_idle)
    with nofault show ?thesis
      by (simp add: ValidateNextManifest_def SelectOne_def sweepResult_def)
  qed
  have busy: "\<exists>m \<in> set (manifests d). needsValidation ?t1 ?t2 m
      \<and> (\<forall>x \<in> set (manifests d). needsValidation ?t1 ?t2 x
            \<longrightarrow> (m_ValidationErrorMessage x \<noteq> [] \<longrightarrow> m_ValidationErrorMessage m \<noteq> [])
               \<and> ((m_ValidationErrorMessage x \<noteq> []) = (m_ValidationErrorMessage m \<noteq> [])
                    \<longrightarrow> m_ValidatedAt m \<le> m_ValidatedAt x))
      \<and> snd (ValidateNextManifest env d) = snd (validateSelectedManifest env d m)
      \<and> filter (otherManifest (m_RepositoryID m) (m_Digest m))
             (manifests (snd (ValidateNextManifest env d)))
          = filter (otherManifest (m_RepositoryID m) (m_Digest m)) (manifests d)"
    if "\<exists>m \<in> set (manifests d). needsValidation ?t1 ?t2 m"
  proof -
    from that have "outdatedManifestSearchQuery d ?t1 ?t2 \<noteq> None" by (simp add: query_idle)
    then obtain m where sel: "outdatedManifestSearchQuery d ?t1 ?t2 = Some m" by blast
    note q = query_selects [OF sel]
    have order: "(m_ValidationErrorMessage x \<noteq> [] \<longrightarrow> m_ValidationErrorMessage m \<noteq> [])
               \<and> ((m_ValidationErrorMessage x \<noteq> []) = (m_ValidationErrorMessage m \<noteq> [])
                    \<longrightarrow> m_ValidatedAt m \<le> m_ValidatedAt x)"
      if "x \<in> set (manifests d)" and "needsValidation ?t1 ?t2 x" for x
      using q(3) [OF that] by (auto simp: comesBefore_def)
    obtain e d' where r: "validateSelectedManifest env d m = (e, d')"
      by (cases "validateSelectedManifest env d m")
    with sel nofault have run: "snd (ValidateNextManifest env d) = d'"
      by (simp add: ValidateNextManifest_def SelectOne_def)
    have rows: "filter (otherManifest (m_RepositoryID m) (m_Digest m)) (manifests d')
                  = filter (otherManifest (m_RepositoryID m) (m_Digest m)) (manifests d)"
      using keep r by (rule validateSelectedManifest_other_rows)
    from q(1,2) order run r rows show ?thesis by auto
  qed
  from idle busy show ?thesis by blast
qed

theorem validation_sweep_takes_one_manifest_witness:
  "\<not> needsValidation (timeNow (ex_janitor 200000 []) 0 - 24 * 3600)
        (timeNow (ex_janitor 200000 []) 1 - 10 * 60) (ex_manifest ''sha256:cccc'' 199900 [])
   \<and> ValidateNextManifest (ex_janitor 200000 [])
        (ex_janitor_db [ex_manifest ''sha256:cccc'' 199900 []])
       = (Some SqlErrNoRows, ex_janitor_db [ex_manifest ''sha256:cccc'' 199900 []])
   \<and> (\<exists>m \<in> set (manifests (ex_janitor_db
           [ex_manifest ''sha256:aaaa'' 90000 [], ex_manifest ''sha256:bbbb'' 180000 ''boom'',
            ex_manifest ''sha256:cccc'' 199900 []])).
         needsValidation (timeNow (ex_janitor 200000 []) 0 - 24 * 3600)
            (timeNow (ex_janitor 200000 []) 1 - 10 * 60) m)
   \<and> manifests (snd (ValidateNextManifest (ex_janitor 200000 [])
        (ex_janitor_db
           [ex_manifest ''sha256:aaaa'' 90000 [], ex_manifest ''sha256:bbbb'' 180000 ''boom'',
            ex_manifest ''sha256:cccc'' 199900 []])))
       = [ex_manifest ''sha256:aaaa'' 90000 [], ex_manifest ''sha256:bbbb'' 200000 [],
          ex_manifest ''sha256:cccc'' 199900 []]"
proof -
  let ?env = "ex_janitor 200000 []"
  let ?idle = "ex_janitor_db [ex_manifest ''sha256:cccc'' 199900 []]"
  let ?busy = "ex_janitor_db
           [ex_manifest ''sha256:aaaa'' 90000 [], ex_manifest ''sha256:bbbb'' 180000 ''boom'',
            ex_manifest ''sha256:cccc'' 199900 []]"
  have nofault: "jdbFault ?env OpSelectOutdatedManifest = None" by (simp add: ex_janitor_def)
  have keep: "\<And>m account repo t.
      manifests (snd (ValidateExistingManifest ?env d account repo m t)) = manifests d" for d
    by (simp add: ex_janitor_def)
  have none: "\<forall>m \<in> set (manifests ?idle).
       \<not> needsValidation (timeNow ?env 0 - 24 * 3600) (timeNow ?env 1 - 10 * 60) m"
    by (simp add: needsValidation_def janitor_ex_defs)
  have some: "\<exists>m \<in> set (manifests ?busy).
       needsValidation (timeNow ?env 0 - 24 * 3600) (timeNow ?env 1 - 10 * 60) m"
    by (simp add: needsValidation_def janitor_ex_defs)
  have run: "manifests (snd (ValidateNextManifest ?env ?busy))
       = [ex_manifest ''sha256:aaaa'' 90000 [], ex_manifest ''sha256:bbbb'' 200000 [],
          ex_manifest ''sha256:cccc'' 199900 []]"
    by (simp add: validation_defs janitor_ex_defs ex_defs)
  have single: "\<not> needsValidation (timeNow ?env 0 - 24 * 3600) (timeNow ?env 1 - 10 * 60)
                    (ex_manifest ''sha256:cccc'' 199900 [])"
    by (simp add: needsValidation_def janitor_ex_defs)
  from validation_sweep_takes_one_manifest [of ?env ?idle, OF nofault keep]
       validation_sweep_takes_one_manifest [of ?env ?busy, OF nofault keep]
       none some run single
  show ?thesis by simp
qed

text \<open>
  C7. When the sweep has selected a manifest, has found its repository and account and
  the \<^verbatim>\<open>UPDATE\<close> runs, every row of that manifest gets \<^verbatim>\<open>validated_at\<close> set to the
  current time, whether revalidation succeeded or failed; a failure is returned and
  its message is recorded, a success clears the message. So that manifest does not
  qualify for any later call whose clock is less than 10 minutes ahead: the sweep
  does not come back to a broken manifest at once.
\<close>

theorem validation_bumps_validated_at:
  assumes sel: "SelectOne (jdbFault env OpSelectOutdatedManifest)
                  (outdatedManifestSearchQuery d (timeNow env 0 - 24 * 3600)
                     (timeNow env 1 - 10 * 60)) = Inr m"
    and repo: "SelectOne (jdbFault env (OpSelectRepo (m_RepositoryID m)))
                 (find (\<lambda>r. r_ID r = m_RepositoryID m) (repos d)) = Inr repo"
    and acc: "FindAccount env d (r_AccountName repo) = Inr account"
    and val: "ValidateExistingManifest env d account repo m (timeNow env 2) = (verr, d1)"
    and upd: "jdbFault env (OpUpdateValidation (m_Digest m)) = None"
  shows "fst (ValidateNextManifest env d) = sweepResult ''while validating a manifest: '' verr
       \<and> map (\<lambda>x. (m_RepositoryID x, m_Digest x)) (manifests (snd (ValidateNextManifest env d)))
           = map (\<lambda>x. (m_RepositoryID x, m_Digest x)) (manifests d1)
       \<and> (\<forall>x \<in> set (manifests (snd (ValidateNextManifest env d))).
             m_RepositoryID x = m_RepositoryID m \<and> m_Digest x = m_Digest m
             \<longrightarrow> m_ValidatedAt x = timeNow env 3
               \<and> m_ValidationErrorMessage x
                    = (case verr of None \<Rightarrow> [] | Some err \<Rightarrow> error_Error err)
               \<and> (\<forall>later1 later2.
                      later1 < timeNow env 3 + 10 * 60 \<and> later2 < timeNow env 3 + 10 * 60
                      \<longrightarrow> \<not> needsValidation (later1 - 24 * 3600) (later2 - 10 * 60) x))"
proof -
  let ?msg = "case verr of None \<Rightarrow> [] | Some err \<Rightarrow> error_Error err"
  let ?d' = "updateValidation d1 (r_ID repo) (m_Digest m) (timeNow env 3) ?msg"
  from repo have "find (\<lambda>r. r_ID r = m_RepositoryID m) (repos d) = Some repo"
    by (simp add: SelectOne_Inr)
  then have rid: "r_ID repo = m_RepositoryID m" by (auto simp: find_Some_iff)
  have one: "validateSelectedManifest env d m = (verr, ?d')"
    using repo acc val upd by (cases verr) (simp_all add: validateSelectedManifest_def)
  with sel have run: "ValidateNextManifest env d
                        = (sweepResult ''while validating a manifest: '' verr, ?d')"
    by (simp add: ValidateNextManifest_def)
  have row: "m_ValidatedAt x = timeNow env 3 \<and> m_ValidationErrorMessage x = ?msg
       \<and> (\<forall>later1 later2.
              later1 < timeNow env 3 + 10 * 60 \<and> later2 < timeNow env 3 + 10 * 60
              \<longrightarrow> \<not> needsValidation (later1 - 24 * 3600) (later2 - 10 * 60) x)"
    if x: "x \<in> set (manifests ?d')"
      and k: "m_RepositoryID x = m_RepositoryID m \<and> m_Digest x = m_Digest m" for x
  proof -
    from updateValidation_row [OF x] k rid
    have v: "m_ValidatedAt x = timeNow env 3" and e: "m_ValidationErrorMessage x = ?msg"
      by simp_all
    from v have "\<not> needsValidation (later1 - 24 * 3600) (later2 - 10 * 60) x"
      if "later1 < timeNow env 3 + 10 * 60 \<and> later2 < timeNow env 3 + 10 * 60"
      for later1 later2
      using that by (simp add: needsValidation_def)
    with v e show ?thesis by blast
  qed
  from run row updateValidation_keys [of d1 "r_ID repo" "m_Digest m" "timeNow env 3" ?msg]
  show ?thesis by simp
qed

theorem validation_bumps_validated_at_witness:
  "SelectOne (jdbFault (ex_janitor 200000 [''sha256:bbbb'']) OpSelectOutdatedManifest)
      (outdatedManifestSearchQuery
         (ex_janitor_db [ex_manifest ''sha256:aaaa'' 199900 [],
                         ex_manifest ''sha256:bbbb'' 90000 []])
         (timeNow (ex_janitor 200000 [''sha256:bbbb'']) 0 - 24 * 3600)
         (timeNow (ex_janitor 200000 [''sha256:bbbb'']) 1 - 10 * 60))
     = Inr (ex_manifest ''sha256:bbbb'' 90000 [])
   \<and> ValidateNextManifest (ex_janitor 200000 [''sha256:bbbb''])
        (ex_janitor_db [ex_manifest ''sha256:aaaa'' 199900 [],
                        ex_manifest ''sha256:bbbb'' 90000 []])
       = (Some (GenericError
            ''while validating a manifest: manifest blob unknown to registry''),
          ex_janitor_db [ex_manifest ''sha256:aaaa'' 199900 [],
                         ex_manifest ''sha256:bbbb'' 200000 ''manifest blob unknown to registry''])
   \<and> \<not> needsValidation (200599 - 24 * 3600) (200599 - 10 * 60)
         (ex_manifest ''sha256:bbbb'' 200000 ''manifest blob unknown to registry'')"
proof -
  let ?env = "ex_janitor 200000 [''sha256:bbbb'']"
  let ?d = "ex_janitor_db [ex_manifest ''sha256:aaaa'' 199900 [],
                           ex_manifest ''sha256:bbbb'' 90000 []]"
  let ?m = "ex_manifest ''sha256:bbbb'' 90000 []"
  let ?repo = "\<lparr>r_ID = 1, r_AccountName = ''test1'', r_Name = ''foo'',
                r_NextManifestSyncAt = None\<rparr>"
  let ?row = "ex_manifest ''sha256:bbbb'' 200000 ''manifest blob unknown to registry''"
  have sel: "SelectOne (jdbFault ?env OpSelectOutdatedManifest)
               (outdatedManifestSearchQuery ?d (timeNow ?env 0 - 24 * 3600)
                  (timeNow ?env 1 - 10 * 60)) = Inr ?m"
    by (simp add: validation_defs janitor_ex_defs)
  have repo: "SelectOne (jdbFault ?env (OpSelectRepo (m_RepositoryID ?m)))
                (find (\<lambda>r. r_ID r = m_RepositoryID ?m) (repos ?d)) = Inr ?repo"
    by (simp add: SelectOne_def janitor_ex_defs ex_defs)
  have acc: "FindAccount ?env ?d (r_AccountName ?repo) = Inr ex_account"
    by (simp add: janitor_ex_defs ex_defs)
  have val: "ValidateExistingManifest ?env ?d ex_account ?repo ?m (timeNow ?env 2)
               = (Some (GenericError ''manifest blob unknown to registry''), ?d)"
    by (simp add: janitor_ex_defs)
  have upd: "jdbFault ?env (OpUpdateValidation (m_Digest ?m)) = None"
    by (simp add: janitor_ex_defs)
  have run: "ValidateNextManifest ?env ?d
      = (Some (GenericError ''while validating a manifest: manifest blob unknown to registry''),
         ex_janitor_db [ex_manifest ''sha256:aaaa'' 199900 [], ?row])"
    by (simp add: validation_defs janitor_ex_defs ex_defs)
  have mem: "?row \<in> set (manifests (snd (ValidateNextManifest ?env ?d)))"
    unfolding run by (simp add: janitor_ex_defs)
  have key: "m_RepositoryID ?row = m_RepositoryID ?m \<and> m_Digest ?row = m_Digest ?m"
    by (simp add: janitor_ex_defs)
  have now: "timeNow ?env 3 = 200000" by (simp add: janitor_ex_defs)
  from validation_bumps_validated_at [OF sel repo acc val upd] mem key
  have later: "\<forall>later1 later2.
          later1 < timeNow ?env 3 + 10 * 60 \<and> later2 < timeNow ?env 3 + 10 * 60
          \<longrightarrow> \<not> needsValidation (later1 - 24 * 3600) (later2 - 10 * 60) ?row"
    by blast
  have "\<not> needsValidation (200599 - 24 * 3600) (200599 - 10 * 60) ?row"
    using later [rule_format, of 200599 200599] now by simp
  with sel run show ?thesis by simp
qed

section \<open>Properties of the replica manifest sync\<close>

lemma snoc_split:
  "tr @ [e] = pre @ x # post
     \<Longrightarrow> (post = [] \<and> tr = pre \<and> e = x) \<or> (\<exists>post'. post = post' @ [e] \<and> tr = pre @ x # post')"
  by (cases post rule: rev_cases) auto

lemma parentsFirst_storage:
  "parentsFirst parents tr \<Longrightarrow> parentsFirst parents (tr @ [StorageDelete c])"
  unfolding parentsFirst_def by (blast dest: snoc_split)

lemma parentsFirst_row:
  assumes "parentsFirst parents tr" and "\<forall>p \<in> set (parents c). DbDelete p \<in> set tr"
  shows "parentsFirst parents (tr @ [DbDelete c])"
  unfolding parentsFirst_def
proof (intro allI impI)
  fix pre c' post
  assume "tr @ [DbDelete c] = pre @ DbDelete c' # post"
  from snoc_split [OF this] show "\<forall>p \<in> set (parents c'). DbDelete p \<in> set pre"
  proof
    assume "post = [] \<and> tr = pre \<and> DbDelete c = DbDelete c'"
    with assms(2) show ?thesis by simp
  next
    assume "\<exists>post'. post = post' @ [DbDelete c] \<and> tr = pre @ DbDelete c' # post'"
    with assms(1) show ?thesis unfolding parentsFirst_def by blast
  qed
qed

lemma rowFirst_row: "rowFirst tr \<Longrightarrow> rowFirst (tr @ [DbDelete c])"
  unfolding rowFirst_def by (blast dest: snoc_split)

lemma rowFirst_storage:
  assumes "rowFirst tr" and "DbDelete c \<in> set tr"
  shows "rowFirst (tr @ [StorageDelete c])"
  unfolding rowFirst_def
proof (intro allI impI)
  fix pre c' post
  assume "tr @ [StorageDelete c] = pre @ StorageDelete c' # post"
  from snoc_split [OF this] show "DbDelete c' \<in> set pre"
  proof
    assume "post = [] \<and> tr = pre \<and> StorageDelete c = StorageDelete c'"
    with assms(2) show ?thesis by simp
  next
    assume "\<exists>post'. post = post' @ [StorageDelete c] \<and> tr = pre @ StorageDelete c' # post'"
    with assms(1) show ?thesis unfolding rowFirst_def by blast
  qed
qed

text \<open>The state after the two deletions of one manifest.\<close>

lemma sync_inv_step:
  assumes inv: "sync_inv parents st"
    and free: "\<not> list_ex (\<lambda>p. p \<notin> set (manifestWasDeleted st)) (parents dg)"
  shows "sync_inv parents (st\<lparr>ss_db := d', deletions := deletions st @ [DbDelete dg]\<rparr>)"
    and "sync_inv parents
           (st\<lparr>ss_db := d', deletions := deletions st @ [DbDelete dg], ss_storage := sd',
                deletions := (deletions st @ [DbDelete dg]) @ [StorageDelete dg],
                shallDeleteManifest := ks, manifestWasDeleted := dg # manifestWasDeleted st\<rparr>)"
proof -
  from free have "\<forall>p \<in> set (parents dg). p \<in> set (manifestWasDeleted st)"
    by (simp add: list_ex_iff)
  with inv have gone: "\<forall>p \<in> set (parents dg). DbDelete p \<in> set (deletions st)"
    by (auto simp: sync_inv_def)
  from inv have pf: "parentsFirst parents (deletions st)" and rf: "rowFirst (deletions st)"
    and wd: "\<forall>c \<in> set (manifestWasDeleted st). DbDelete c \<in> set (deletions st)"
    by (simp_all add: sync_inv_def)
  have pf1: "parentsFirst parents (deletions st @ [DbDelete dg])"
    using pf gone by (rule parentsFirst_row)
  have rf1: "rowFirst (deletions st @ [DbDelete dg])" using rf by (rule rowFirst_row)
  have pf2: "parentsFirst parents ((deletions st @ [DbDelete dg]) @ [StorageDelete dg])"
    using pf1 by (rule parentsFirst_storage)
  have rf2: "rowFirst ((deletions st @ [DbDelete dg]) @ [StorageDelete dg])"
    using rf1 by (rule rowFirst_storage) simp
  from pf1 rf1 wd
  show "sync_inv parents (st\<lparr>ss_db := d', deletions := deletions st @ [DbDelete dg]\<rparr>)"
    by (simp add: sync_inv_def)
  from pf2 rf2 wd
  show "sync_inv parents
           (st\<lparr>ss_db := d', deletions := deletions st @ [DbDelete dg], ss_storage := sd',
                deletions := (deletions st @ [DbDelete dg]) @ [StorageDelete dg],
                shallDeleteManifest := ks, manifestWasDeleted := dg # manifestWasDeleted st\<rparr>)"
    by (simp add: sync_inv_def)
qed

lemma deletionPass_inv:
  "sync_inv parents st \<Longrightarrow> deletionPass env account repo parents xs st b = (e, st', b')
     \<Longrightarrow> sync_inv parents st'"
proof (induction xs arbitrary: st b)
  case Nil
  then show ?case by simp
next
  case (Cons dg rest)
  show ?case
  proof (cases "list_ex (\<lambda>p. p \<notin> set (manifestWasDeleted st)) (parents dg)")
    case True
    with Cons.prems(2) have "deletionPass env account repo parents rest st b = (e, st', b')"
      by simp
    with Cons.IH Cons.prems(1) show ?thesis by blast
  next
    case free: False
    note step = sync_inv_step [OF Cons.prems(1) free]
    show ?thesis
    proof (cases "jdbFault env (OpDeleteManifest dg)")
      case (Some err)
      with free Cons.prems show ?thesis by auto
    next
      case db: None
      show ?thesis
      proof (cases "DeleteManifestFault env account (r_Name repo) dg")
        case (Some err)
        with free db Cons.prems(2) step(1) [of "deleteManifestRow (ss_db st) (r_ID repo) dg"]
        show ?thesis by (auto simp: Let_def)
      next
        case None
        let ?st2 = "st\<lparr>ss_db := deleteManifestRow (ss_db st) (r_ID repo) dg,
                       deletions := deletions st @ [DbDelete dg],
                       ss_storage := (ss_storage st)((a_Name account, r_Name repo, dg) := None),
                       deletions := (deletions st @ [DbDelete dg]) @ [StorageDelete dg],
                       shallDeleteManifest := removeAll dg (shallDeleteManifest st),
                       manifestWasDeleted := dg # manifestWasDeleted st\<rparr>"
        from free db None Cons.prems(2)
        have "deletionPass env account repo parents rest ?st2 True = (e, st', b')"
          by (simp add: Let_def)
        with Cons.IH step(2) show ?thesis by blast
      qed
    qed
  qed
qed

lemma deleteInOrder_inv:
  "sync_inv parents st \<Longrightarrow> deleteInOrder env account repo parents n st = (e, st')
     \<Longrightarrow> sync_inv parents st'"
proof (induction env account repo parents n st rule: deleteInOrder.induct)
  case (1 env account repo parents n st)
  show ?case
  proof (cases "shallDeleteManifest st = []")
    case True
    with "1.prems" show ?thesis by simp
  next
    case False
    obtain e1 st1 b1 where pass: "deletionPass env account repo parents
        (sort_key (mapRank env n) (shallDeleteManifest st)) st False = (e1, st1, b1)"
      by (cases "deletionPass env account repo parents
                   (sort_key (mapRank env n) (shallDeleteManifest st)) st False")
    note inv1 = deletionPass_inv [OF "1.prems"(1) pass]
    show ?thesis
    proof (cases e1)
      case (Some err)
      with False pass "1.prems"(2) inv1 show ?thesis by simp
    next
      case None
      show ?thesis
      proof (cases b1)
        case False
        with \<open>shallDeleteManifest st \<noteq> []\<close> pass None "1.prems"(2) inv1 show ?thesis by simp
      next
        case True
        with \<open>shallDeleteManifest st \<noteq> []\<close> pass None "1.prems"(2)
        have "deleteInOrder env account repo parents (n + 2) st1 = (e, st')" by simp
        with "1.IH" [of e1 "(st1, b1)" st1 b1] \<open>shallDeleteManifest st \<noteq> []\<close> pass None
          True inv1
        show ?thesis by simp
      qed
    qed
  qed
qed

lemma deletionPass_flag:
  "deletionPass env account repo parents xs st b = (e, st', b') \<Longrightarrow> b \<Longrightarrow> b'"
proof (induction xs arbitrary: st b)
  case Nil
  then show ?case by simp
next
  case (Cons dg rest)
  then show ?case
    by (auto simp: Let_def split: if_splits option.splits)
qed

lemma deletionPass_nothing:
  "deletionPass env account repo parents xs st False = (None, st', False)
     \<Longrightarrow> st' = st \<and> (\<forall>c \<in> set xs. \<exists>p \<in> set (parents c). p \<notin> set (manifestWasDeleted st))"
proof (induction xs)
  case Nil
  then show ?case by simp
next
  case (Cons dg rest)
  show ?case
  proof (cases "list_ex (\<lambda>p. p \<notin> set (manifestWasDeleted st)) (parents dg)")
    case True
    with Cons show ?thesis by (auto simp: list_ex_iff)
  next
    case False
    with Cons.prems show ?thesis
      by (auto simp: Let_def split: option.splits dest: deletionPass_flag)
  qed
qed

lemma deletionPass_no_fault:
  assumes "\<forall>dg. jdbFault env (OpDeleteManifest dg) = None"
    and "\<forall>dg. DeleteManifestFault env account (r_Name repo) dg = None"
  shows "fst (deletionPass env account repo parents xs st b) = None"
  using assms by (induction xs arbitrary: st b) (simp_all add: Let_def)

lemma deleteInOrder_done:
  "deleteInOrder env account repo parents n st = (None, st') \<Longrightarrow> shallDeleteManifest st' = []"
proof (induction env account repo parents n st rule: deleteInOrder.induct)
  case (1 env account repo parents n st)
  show ?case
  proof (cases "shallDeleteManifest st = []")
    case True
    with "1.prems" show ?thesis by simp
  next
    case False
    obtain e1 st1 b1 where pass: "deletionPass env account repo parents
        (sort_key (mapRank env n) (shallDeleteManifest st)) st False = (e1, st1, b1)"
      by (cases "deletionPass env account repo parents
                   (sort_key (mapRank env n) (shallDeleteManifest st)) st False")
    from False pass "1.prems" have e1: "e1 = None" and b1: "b1"
      by (auto split: option.splits if_splits)
    with False pass "1.prems"
    have "deleteInOrder env account repo parents (n + 2) st1 = (None, st')" by simp
    with "1.IH" [of e1 "(st1, b1)" st1 b1] False pass e1 b1 show ?thesis by simp
  qed
qed

lemma deleteInOrder_stuck:
  assumes db: "\<forall>dg. jdbFault env (OpDeleteManifest dg) = None"
    and sd: "\<forall>dg. DeleteManifestFault env account (r_Name repo) dg = None"
  shows "deleteInOrder env account repo parents n st = (e, st')
     \<Longrightarrow> shallDeleteManifest st' \<noteq> []
     \<Longrightarrow> (\<exists>k. e = Some (stuckError repo (sort_key (mapRank env k) (shallDeleteManifest st'))))
       \<and> (\<forall>c \<in> set (shallDeleteManifest st').
             \<exists>p \<in> set (parents c). p \<notin> set (manifestWasDeleted st'))"
  using db sd
proof (induction env account repo parents n st rule: deleteInOrder.induct)
  case (1 env account repo parents n st)
  show ?case
  proof (cases "shallDeleteManifest st = []")
    case True
    with "1.prems" show ?thesis by simp
  next
    case False
    note nonempty = False
    obtain e1 st1 b1 where pass: "deletionPass env account repo parents
        (sort_key (mapRank env n) (shallDeleteManifest st)) st False = (e1, st1, b1)"
      by (cases "deletionPass env account repo parents
                   (sort_key (mapRank env n) (shallDeleteManifest st)) st False")
    from deletionPass_no_fault [OF "1.prems"(3,4), of parents
           "sort_key (mapRank env n) (shallDeleteManifest st)" st False] pass
    have e1: "e1 = None" by simp
    consider (progress) "b1" | (idle) "\<not> b1" by blast
    then show ?thesis
    proof cases
      case progress
      with nonempty pass e1 "1.prems"(1)
      have "deleteInOrder env account repo parents (n + 2) st1 = (e, st')" by simp
      with "1.IH" [of e1 "(st1, b1)" st1 b1] nonempty pass e1 progress "1.prems"(2,3,4)
      show ?thesis by simp
    next
      case idle
      from idle pass e1 have p: "deletionPass env account repo parents
          (sort_key (mapRank env n) (shallDeleteManifest st)) st False = (None, st1, False)"
        by simp
      from deletionPass_nothing [OF p]
      have same: "st1 = st"
        and held: "\<forall>c \<in> set (shallDeleteManifest st).
                     \<exists>p \<in> set (parents c). p \<notin> set (manifestWasDeleted st)"
        by simp_all
      from nonempty pass e1 idle "1.prems"(1) same
      have "e = Some (stuckError repo (sort_key (mapRank env (n + 1)) (shallDeleteManifest st)))"
        and "st' = st"
        by auto
      with held show ?thesis by blast
    qed
  qed
qed

text \<open>
  C5. In the replica manifest sync, the database row of a manifest is deleted only after
  the rows of all manifests that reference it (its parents in
  \<^verbatim>\<open>manifest_manifest_refs\<close>) have been deleted; the storage object of a manifest is
  deleted only after its database row; the sync returns without error only when the
  deletion set is empty; and when no deletion fails and digests are left, a run over
  the deletion set has deleted nothing: the sync returns the inconsistency error that
  names exactly the digests left, each of which still has a parent that was not deleted.
\<close>

theorem sync_deletes_parents_first:
  assumes run: "performManifestSync env d sd account repo = (err, st)"
  shows "(\<forall>pre c post. deletions st = pre @ DbDelete c # post
            \<longrightarrow> (\<forall>p \<in> set (parentDigestsIn d repo c). DbDelete p \<in> set pre))
       \<and> (\<forall>pre c post. deletions st = pre @ StorageDelete c # post \<longrightarrow> DbDelete c \<in> set pre)
       \<and> (err = None \<longrightarrow> shallDeleteManifest st = [])
       \<and> (shallDeleteManifest st \<noteq> []
            \<and> (\<forall>dg. jdbFault env (OpDeleteManifest dg) = None)
            \<and> (\<forall>dg. DeleteManifestFault env account (r_Name repo) dg = None)
          \<longrightarrow> (\<exists>k. err = Some (stuckError repo
                                   (sort_key (mapRank env k) (shallDeleteManifest st))))
            \<and> (\<forall>c \<in> set (shallDeleteManifest st).
                  \<exists>p \<in> set (parentDigestsIn d repo c). p \<notin> set (manifestWasDeleted st)))"
proof -
  let ?st0 = "\<lparr>ss_db = d, ss_storage = sd, shallDeleteManifest = [],
               manifestWasDeleted = [], deletions = []\<rparr>"
  let ?parents = "parentDigestsIn d repo"
  have inv0: "sync_inv ?parents (?st0\<lparr>shallDeleteManifest := ks\<rparr>)" for ks
    by (simp add: sync_inv_def parentsFirst_def rowFirst_def)
  consider (early) "st = ?st0" "err \<noteq> None"
    | (loop) ks where "deleteInOrder env account repo ?parents 0
                         (?st0\<lparr>shallDeleteManifest := ks\<rparr>) = (err, st)"
    using run
    by (auto simp: performManifestSync_def Let_def split: option.splits sum.splits)
  then show ?thesis
  proof cases
    case early
    then show ?thesis by simp
  next
    case loop
    from deleteInOrder_inv [OF inv0 loop] have inv: "sync_inv ?parents st" .
    have a: "\<forall>pre c post. deletions st = pre @ DbDelete c # post
               \<longrightarrow> (\<forall>p \<in> set (?parents c). DbDelete p \<in> set pre)"
      using inv by (simp add: sync_inv_def parentsFirst_def)
    have b: "\<forall>pre c post. deletions st = pre @ StorageDelete c # post \<longrightarrow> DbDelete c \<in> set pre"
      using inv by (simp add: sync_inv_def rowFirst_def)
    have c: "err = None \<longrightarrow> shallDeleteManifest st = []"
    proof
      assume "err = None"
      with loop have "deleteInOrder env account repo ?parents 0
                        (?st0\<lparr>shallDeleteManifest := ks\<rparr>) = (None, st)"
        by (simp only:)
      then show "shallDeleteManifest st = []" by (rule deleteInOrder_done)
    qed
    have e: "(\<exists>k. err = Some (stuckError repo (sort_key (mapRank env k) (shallDeleteManifest st))))
           \<and> (\<forall>c \<in> set (shallDeleteManifest st).
                 \<exists>p \<in> set (?parents c). p \<notin> set (manifestWasDeleted st))"
      if "shallDeleteManifest st \<noteq> []"
        and "\<forall>dg. jdbFault env (OpDeleteManifest dg) = None"
        and "\<forall>dg. DeleteManifestFault env account (r_Name repo) dg = None"
      using deleteInOrder_stuck [OF that(2,3) loop that(1)] .
    from a b c e show ?thesis by blast
  qed
qed

lemmas sync_defs =
  performManifestSync_def parentDigestsIn_def deleteManifestRow_def otherManifest_def
  stuckError_def Repository_FullName_def Let_def

theorem sync_deletes_parents_first_witness:
  "performManifestSync (ex_sync_janitor [''sha256:1111'', ''sha256:2222'']) ex_sync_db Map.empty
      ex_account ex_repo
     = (None,
        \<lparr>ss_db = ex_sync_db\<lparr>manifests := [ex_manifest ''sha256:3333'' 90000 []]\<rparr>,
         ss_storage = Map.empty,
         shallDeleteManifest = [],
         manifestWasDeleted = [''sha256:2222'', ''sha256:1111''],
         deletions = [DbDelete ''sha256:1111'', StorageDelete ''sha256:1111'',
                      DbDelete ''sha256:2222'', StorageDelete ''sha256:2222'']\<rparr>)
   \<and> parentDigestsIn ex_sync_db ex_repo ''sha256:2222'' = [''sha256:1111'']
   \<and> fst (performManifestSync (ex_sync_janitor [''sha256:2222'']) ex_sync_db Map.empty
            ex_account ex_repo)
       = Some (stuckError ex_repo [''sha256:2222''])
   \<and> deletions (snd (performManifestSync (ex_sync_janitor [''sha256:2222'']) ex_sync_db Map.empty
            ex_account ex_repo)) = []"
proof -
  let ?both = "ex_sync_janitor [''sha256:1111'', ''sha256:2222'']"
  let ?child = "ex_sync_janitor [''sha256:2222'']"
  let ?st = "\<lparr>ss_db = ex_sync_db\<lparr>manifests := [ex_manifest ''sha256:3333'' 90000 []]\<rparr>,
         ss_storage = Map.empty,
         shallDeleteManifest = [],
         manifestWasDeleted = [''sha256:2222'', ''sha256:1111''],
         deletions = [DbDelete ''sha256:1111'', StorageDelete ''sha256:1111'',
                      DbDelete ''sha256:2222'', StorageDelete ''sha256:2222'']\<rparr>"
  have run: "performManifestSync ?both ex_sync_db Map.empty ex_account ex_repo = (None, ?st)"
    by (simp add: sync_defs ex_sync_db_def ex_sync_janitor_def ex_repo_def janitor_ex_defs ex_defs)
  have parents: "parentDigestsIn ex_sync_db ex_repo ''sha256:2222'' = [''sha256:1111'']"
    by (simp add: sync_defs ex_sync_db_def ex_repo_def ex_defs)
  obtain err st where stuck: "performManifestSync ?child ex_sync_db Map.empty ex_account ex_repo
                                = (err, st)"
    by (cases "performManifestSync ?child ex_sync_db Map.empty ex_account ex_repo")
  have left: "shallDeleteManifest st = [''sha256:2222'']" and nothing_deleted: "deletions st = []"
    using stuck
    by (auto simp: sync_defs ex_sync_db_def ex_sync_janitor_def ex_repo_def janitor_ex_defs ex_defs)
  have nofault: "\<forall>dg. jdbFault ?child (OpDeleteManifest dg) = None"
    "\<forall>dg. DeleteManifestFault ?child ex_account (r_Name ex_repo) dg = None"
    by (simp_all add: ex_sync_janitor_def janitor_ex_defs)
  from sync_deletes_parents_first [OF stuck] left nofault
  have "\<exists>k. err = Some (stuckError ex_repo (sort_key (mapRank ?child k) [''sha256:2222'']))"
    by simp
  then have "err = Some (stuckError ex_repo [''sha256:2222''])" by auto
  with run parents stuck nothing_deleted show ?thesis by simp
qed

section \<open>Properties of the vulnerability check sweep\<close>

lemmas vuln_defs =
  CheckVulnerabilitiesForNextManifest_def vulnCheckSelectQuery_def needsVulnCheck_def
  checkedBefore_def vulnCheckBlobSelectQuery_def vulnCheckSubmanifestInfoQuery_def
  askClair_def updateManifestRow_def SelectOne_def sweepResult_def Let_def

lemmas vuln_ex_defs = ex_vuln_db_def ex_vuln_janitor_def janitor_ex_defs ex_defs

text \<open>
  C9, as stated: when the scanner reports the indexing of the selected manifest as
  errored, \<^verbatim>\<open>next_vuln_check_at\<close> is set to now + 1 hour. The sweep returns the error
  before it writes anything: the manifest below has no check scheduled before the
  call and none after it.
\<close>

theorem errored_indexing_counterexample:
  "CheckVulnerabilitiesForNextManifest 1 (ex_vuln_janitor \<lparr>IsErrored = True, IsIndexed = False\<rparr>)
      ex_vuln_db
     = Some (Some (GenericError
          (''while updating vulnerability status for a manifest: ''
           @ ''Clair reports indexing of sha256:8a92 as errored'')), ex_vuln_db)
   \<and> map m_NextVulnerabilityCheckAt (manifests ex_vuln_db) = [None]
   \<and> timeNow (ex_vuln_janitor \<lparr>IsErrored = True, IsIndexed = False\<rparr>) 1 + 1 * 3600 = 203600"
  by (simp add: vuln_defs vuln_ex_defs)

text \<open>
  C9, amended: in the vulnerability check sweep, when the scanner reports the indexing
  of the selected manifest as errored, the error is surfaced to the caller (as ``Clair
  reports indexing of ... as errored'', after the name of the sweep) and the database
  is left as it was: the manifest row is not written, so \<^verbatim>\<open>next_vuln_check_at\<close> keeps its
  value.
\<close>

theorem errored_indexing_is_surfaced:
  assumes sel: "SelectOne (jdbFault env OpSelectVulnCheck)
                  (vulnCheckSelectQuery d (timeNow env 0)) = Inr manifest"
    and repo: "FindRepositoryByID env d (m_RepositoryID manifest) = Inr repo"
    and acc: "FindAccount env d (r_AccountName repo) = Inr account"
    and active: "\<not> a_InMaintenance account"
    and blobs: "jdbFault env (OpSelectBlobs (m_Digest manifest)) = None"
    and some: "vulnCheckBlobSelectQuery d (m_RepositoryID manifest) (m_Digest manifest) \<noteq> []"
    and scan: "scanBlobs env d account repo manifest
                 (vulnCheckBlobSelectQuery d (m_RepositoryID manifest) (m_Digest manifest)) []
               = Layers layers"
    and sub: "jdbFault env (OpSubmanifestInfo (m_Digest manifest)) = None"
    and state: "CheckManifestState env (m_Digest manifest) layers = Inr clairState"
    and errored: "IsErrored clairState"
  shows "CheckVulnerabilitiesForNextManifest (Suc n) env d
           = Some (Some (GenericError
                (''while updating vulnerability status for a manifest: ''
                 @ ''Clair reports indexing of '' @ m_Digest manifest @ '' as errored'')), d)"
proof -
  have ask: "askClair env d manifest
               (vulnCheckBlobSelectQuery d (m_RepositoryID manifest) (m_Digest manifest)) layers
             = (Some (GenericError (''Clair reports indexing of '' @ m_Digest manifest
                       @ '' as errored'')), manifest)"
    using some sub state errored by (simp add: askClair_def)
  have check: "doVulnerabilityCheck (Suc n) env d account repo manifest
                 = Some (Some (GenericError (''Clair reports indexing of '' @ m_Digest manifest
                           @ '' as errored'')), manifest, d)"
    using active blobs scan ask by simp
  show ?thesis
    using sel repo acc check
    by (simp add: CheckVulnerabilitiesForNextManifest_def sweepResult_def del: doVulnerabilityCheck.simps)
qed

theorem errored_indexing_is_surfaced_witness:
  "SelectOne (jdbFault (ex_vuln_janitor \<lparr>IsErrored = True, IsIndexed = False\<rparr>) OpSelectVulnCheck)
      (vulnCheckSelectQuery ex_vuln_db
         (timeNow (ex_vuln_janitor \<lparr>IsErrored = True, IsIndexed = False\<rparr>) 0))
     = Inr (ex_manifest ''sha256:8a92'' 90000 [])
   \<and> scanBlobs (ex_vuln_janitor \<lparr>IsErrored = True, IsIndexed = False\<rparr>) ex_vuln_db ex_account
        ex_repo (ex_manifest ''sha256:8a92'' 90000 [])
        (vulnCheckBlobSelectQuery ex_vuln_db 1 ''sha256:8a92'') []
       = Layers [(''sha256:712d'', ''https://storage.example.org/storage-sha256:712d''),
                 (''sha256:3ae1'', ''https://storage.example.org/storage-sha256:3ae1'')]
   \<and> CheckVulnerabilitiesForNextManifest (Suc 0)
        (ex_vuln_janitor \<lparr>IsErrored = True, IsIndexed = False\<rparr>) ex_vuln_db
       = Some (Some (GenericError
            (''while updating vulnerability status for a manifest: ''
             @ ''Clair reports indexing of sha256:8a92 as errored'')), ex_vuln_db)"
proof -
  let ?env = "ex_vuln_janitor \<lparr>IsErrored = True, IsIndexed = False\<rparr>"
  let ?m = "ex_manifest ''sha256:8a92'' 90000 []"
  let ?layers = "[(''sha256:712d'', ''https://storage.example.org/storage-sha256:712d''),
                  (''sha256:3ae1'', ''https://storage.example.org/storage-sha256:3ae1'')]"
  have sel: "SelectOne (jdbFault ?env OpSelectVulnCheck)
               (vulnCheckSelectQuery ex_vuln_db (timeNow ?env 0)) = Inr ?m"
    by (simp add: vuln_defs vuln_ex_defs)
  have repo: "FindRepositoryByID ?env ex_vuln_db (m_RepositoryID ?m) = Inr ex_repo"
    by (simp add: vuln_ex_defs ex_repo_def)
  have acc: "FindAccount ?env ex_vuln_db (r_AccountName ex_repo) = Inr ex_account"
    by (simp add: vuln_ex_defs ex_repo_def)
  have active: "\<not> a_InMaintenance ex_account" by (simp add: ex_defs)
  have blobs: "jdbFault ?env (OpSelectBlobs (m_Digest ?m)) = None" by (simp add: vuln_ex_defs)
  have bs: "vulnCheckBlobSelectQuery ex_vuln_db (m_RepositoryID ?m) (m_Digest ?m)
              = [ex_blob 1 ex_config, ex_blob 2 ex_layer]"
    by (simp add: vuln_defs vuln_ex_defs)
  then have some: "vulnCheckBlobSelectQuery ex_vuln_db (m_RepositoryID ?m) (m_Digest ?m) \<noteq> []"
    by simp
  have scan: "scanBlobs ?env ex_vuln_db ex_account ex_repo ?m
                (vulnCheckBlobSelectQuery ex_vuln_db (m_RepositoryID ?m) (m_Digest ?m)) []
              = Layers ?layers"
    unfolding bs by (simp add: vuln_ex_defs)
  have sub: "jdbFault ?env (OpSubmanifestInfo (m_Digest ?m)) = None" by (simp add: vuln_ex_defs)
  have state: "CheckManifestState ?env (m_Digest ?m) ?layers
                 = Inr \<lparr>IsErrored = True, IsIndexed = False\<rparr>"
    by (simp add: vuln_ex_defs)
  have errored: "IsErrored \<lparr>IsErrored = True, IsIndexed = False\<rparr>" by simp
  have key: "m_RepositoryID ?m = 1" "m_Digest ?m = ''sha256:8a92''"
    by (simp_all add: janitor_ex_defs)
  from errored_indexing_is_surfaced
         [OF sel repo acc active blobs some scan sub state errored, of 0]
       sel scan key
  show ?thesis by simp
qed

end
